theory Spec2Isabelle
  imports Complex_Main "HOL-Library.Sublist"
begin

section \<open>Python values\<close>

text \<open>
  The program works on the decoded JSON of the screener's response: Python \<open>None\<close>,
  \<open>bool\<close>, \<open>int\<close>, \<open>float\<close>, \<open>str\<close>, \<open>list\<close> and \<open>dict\<close> values. A \<open>str\<close> is a
  \<open>string\<close>, holding the UTF-8 bytes of the text. A \<open>dict\<close> is an association list read
  with \<open>map_of\<close>.

  A \<open>float\<close> is kept as sign, mantissa and binary exponent (the value of
  \<open>Finite s m e\<close> is \<open>\<plusminus> m * 2 ^ e\<close>, negative when \<open>s\<close> holds), or one of the two
  infinities, or not-a-number. Every IEEE double is one of these.
\<close>

datatype pyfloat = Finite bool nat int | Infinity bool | NaN

datatype json =
    JNull
  | JBool bool
  | JInt int
  | JFloat pyfloat
  | JStr string
  | JList "json list"
  | JDict "(string \<times> json) list"

text \<open>The exceptions the program can meet.\<close>

datatype error =
    AttributeError
  | TypeError
  | ValueError
  | OverflowError
  | IndexError
  | KeyError
  | RuntimeError
  | RequestException
  | SMTPException

text \<open>Truth value testing, as \<open>or\<close>, \<open>and\<close>, \<open>not\<close> and \<open>if\<close> apply it.\<close>

fun truthy :: "json \<Rightarrow> bool" where
  "truthy JNull = False"
| "truthy (JBool b) = b"
| "truthy (JInt n) = (n \<noteq> 0)"
| "truthy (JFloat (Finite s m e)) = (m \<noteq> 0)"
| "truthy (JFloat (Infinity s)) = True"
| "truthy (JFloat NaN) = True"
| "truthy (JStr s) = (s \<noteq> [])"
| "truthy (JList xs) = (xs \<noteq> [])"
| "truthy (JDict d) = (d \<noteq> [])"

text \<open>\<open>a or b\<close>: the first operand when it is true, else the second.\<close>

definition py_or :: "json \<Rightarrow> json \<Rightarrow> json" where
  "py_or a b = (if truthy a then a else b)"

text \<open>\<open>d.get(k)\<close> is \<open>None\<close> for a missing key; \<open>d.get(k, dflt)\<close> is \<open>dflt\<close>.\<close>

definition dict_get_default :: "(string \<times> json) list \<Rightarrow> string \<Rightarrow> json \<Rightarrow> json" where
  "dict_get_default d k dflt = (case map_of d k of None \<Rightarrow> dflt | Some v \<Rightarrow> v)"

definition dict_get :: "(string \<times> json) list \<Rightarrow> string \<Rightarrow> json" where
  "dict_get d k = dict_get_default d k JNull"

text \<open>\<open>isinstance(x, (int, float))\<close>; \<open>bool\<close> is a subclass of \<open>int\<close>.\<close>

fun is_int_or_float :: "json \<Rightarrow> bool" where
  "is_int_or_float (JBool b) = True"
| "is_int_or_float (JInt n) = True"
| "is_int_or_float (JFloat f) = True"
| "is_int_or_float v = False"

text \<open>
  \<open>int(x)\<close> for a number: a float is truncated towards zero; an infinity raises
  \<open>OverflowError\<close> and not-a-number raises \<open>ValueError\<close>. The program applies
  \<open>int\<close> only after \<open>isinstance(x, (int, float))\<close>, so the last equation is never
  reached.
\<close>

fun int_of_float :: "pyfloat \<Rightarrow> error + int" where
  "int_of_float (Finite s m e) =
     Inr ((if s then - 1 else 1) *
          (if 0 \<le> e then int m * 2 ^ nat e else int m div 2 ^ nat (- e)))"
| "int_of_float (Infinity s) = Inl OverflowError"
| "int_of_float NaN = Inl ValueError"

fun py_int :: "json \<Rightarrow> error + int" where
  "py_int (JBool b) = Inr (if b then 1 else 0)"
| "py_int (JInt n) = Inr n"
| "py_int (JFloat f) = int_of_float f"
| "py_int v = Inl TypeError"

text \<open>\<open>s.endswith(suf)\<close>.\<close>

definition endswith :: "string \<Rightarrow> string \<Rightarrow> bool" where
  "endswith s suf = (length suf \<le> length s \<and> drop (length s - length suf) s = suf)"

text \<open>\<open>xs[:n]\<close>: a negative \<open>n\<close> counts from the end.\<close>

definition slice_to :: "'a list \<Rightarrow> int \<Rightarrow> 'a list" where
  "slice_to xs n = (if 0 \<le> n then take (nat n) xs else take (length xs - nat (- n)) xs)"

section \<open>The ranker: \<open>select_top_by_exchange\<close>\<close>

record row =
  symbol :: string
  name :: json
  volume :: int
  price :: json
  change :: json
  change_pct :: json

text \<open>
  Line 83 and the \<open>"volume"\<close> entry of line 91:
  \<open>vol = q.get("regularMarketVolume") or q.get("averageDailyVolume3Month") or 0\<close>, then
  \<open>int(vol) if isinstance(vol, (int, float)) else 0\<close>.
\<close>

definition quote_vol :: "(string \<times> json) list \<Rightarrow> json" where
  "quote_vol q =
     py_or (py_or (dict_get q ''regularMarketVolume'') (dict_get q ''averageDailyVolume3Month''))
       (JInt 0)"

definition quote_volume :: "(string \<times> json) list \<Rightarrow> error + int" where
  "quote_volume q =
     (let vol = quote_vol q in if is_int_or_float vol then py_int vol else Inr 0)"

text \<open>\<open>x if isinstance(x, (int, float)) else None\<close> (lines 92 to 94).\<close>

definition number_or_none :: "json \<Rightarrow> json" where
  "number_or_none x = (if is_int_or_float x then x else JNull)"

text \<open>Line 80: \<open>sym = q.get("symbol") or ""\<close>; \<open>get\<close> exists on a dict only.\<close>

fun quote_sym :: "json \<Rightarrow> error + json" where
  "quote_sym (JDict d) = Inr (py_or (dict_get d ''symbol'') (JStr []))"
| "quote_sym v = Inl AttributeError"

text \<open>
  The body of the loop (lines 80 to 95) for one quote: an exception, or \<open>None\<close> when the
  quote is skipped by \<open>continue\<close>, or the row that is appended. \<open>endswith\<close> exists on a
  \<open>str\<close> only.
\<close>

fun quote_row :: "string \<Rightarrow> json \<Rightarrow> error + row option" where
  "quote_row suf (JDict q) =
     (case quote_sym (JDict q) of
        Inr (JStr symb) \<Rightarrow>
          if \<not> endswith symb suf then Inr None
          else (case quote_volume q of
                  Inl e \<Rightarrow> Inl e
                | Inr v \<Rightarrow>
                    Inr (Some \<lparr>symbol = symb,
                      name = py_or (py_or (dict_get q ''shortName'') (dict_get q ''longName''))
                               (JStr symb),
                      volume = v,
                      price = number_or_none (dict_get q ''regularMarketPrice''),
                      change = number_or_none (dict_get q ''regularMarketChange''),
                      change_pct = number_or_none (dict_get q ''regularMarketChangePercent'')\<rparr>))
      | other \<Rightarrow> Inl AttributeError)"
| "quote_row suf v = Inl AttributeError"

text \<open>The loop of lines 78 to 95; \<open>rows\<close> is the list built so far.\<close>

fun collect_rows :: "string \<Rightarrow> json list \<Rightarrow> row list \<Rightarrow> error + row list" where
  "collect_rows suf [] rows = Inr rows"
| "collect_rows suf (q # quotes) rows =
     (case quote_row suf q of
        Inl e \<Rightarrow> Inl e
      | Inr None \<Rightarrow> collect_rows suf quotes rows
      | Inr (Some r) \<Rightarrow> collect_rows suf quotes (rows @ [r]))"

text \<open>
  Line 96: \<open>rows.sort(key=lambda r: r["volume"], reverse=True)\<close>. Python's sort is stable,
  also under \<open>reverse=True\<close>; the volumes are integers, so it is the stable sort by the
  negated volume.
\<close>

definition sort_rows :: "row list \<Rightarrow> row list" where
  "sort_rows rows = sort_key (\<lambda>r. - volume r) rows"

definition select_top_by_exchange :: "json list \<Rightarrow> string \<Rightarrow> int \<Rightarrow> error + row list" where
  "select_top_by_exchange quotes suf top_n =
     (case collect_rows suf quotes [] of
        Inl e \<Rightarrow> Inl e
      | Inr rows \<Rightarrow> Inr (slice_to (sort_rows rows) top_n))"

section \<open>The market gate: \<open>now_ist_dt\<close> and \<open>is_market_open_ist\<close>\<close>

text \<open>
  A naive \<open>datetime\<close>. The date is kept as its proleptic Gregorian ordinal
  (\<open>date.toordinal()\<close>, day 1 is 0001-01-01), which is how Python computes both
  \<open>weekday()\<close> and the sum with a \<open>timedelta\<close>.
\<close>

record datetime =
  ordinal :: int
  hour :: nat
  minute :: nat
  second :: nat
  microsecond :: nat

text \<open>
  The ordinal of a calendar date with a month from 1 to 12, for writing dates down:
  \<open>_ymd2ord\<close> of \<open>datetime.py\<close>.
\<close>

definition is_leap :: "int \<Rightarrow> bool" where
  "is_leap y = (y mod 4 = 0 \<and> (y mod 100 \<noteq> 0 \<or> y mod 400 = 0))"

definition days_before_year :: "int \<Rightarrow> int" where
  "days_before_year year =
     (let y = year - 1 in y * 365 + y div 4 - y div 100 + y div 400)"

definition days_before_month :: "int \<Rightarrow> nat \<Rightarrow> int" where
  "days_before_month year month =
     [0, 0, 31, 59, 90, 120, 151, 181, 212, 243, 273, 304, 334] ! month
       + (if 2 < month \<and> is_leap year then 1 else 0)"

definition ymd2ord :: "int \<Rightarrow> nat \<Rightarrow> nat \<Rightarrow> int" where
  "ymd2ord year month day = days_before_year year + days_before_month year month + int day"

definition mk_datetime :: "int \<Rightarrow> nat \<Rightarrow> nat \<Rightarrow> nat \<Rightarrow> nat \<Rightarrow> nat \<Rightarrow> nat \<Rightarrow> datetime" where
  "mk_datetime y m d hh mm ss us =
     \<lparr>ordinal = ymd2ord y m d, hour = hh, minute = mm, second = ss, microsecond = us\<rparr>"

text \<open>\<open>dt.weekday()\<close>: Monday is 0, Saturday 5, Sunday 6.\<close>

definition weekday :: "datetime \<Rightarrow> int" where
  "weekday dt = (ordinal dt + 6) mod 7"

text \<open>
  \<open>dt + timedelta(seconds=s)\<close>: the seconds carry into the date, and a date outside
  years 1 to 9999 raises \<open>OverflowError\<close>.
\<close>

definition add_seconds :: "datetime \<Rightarrow> int \<Rightarrow> error + datetime" where
  "add_seconds dt s =
     (let secs = int (hour dt) * 3600 + int (minute dt) * 60 + int (second dt) + s;
          days = ordinal dt + secs div 86400;
          rest = secs mod 86400
      in if 0 < days \<and> days \<le> 3652059
         then Inr \<lparr>ordinal = days, hour = nat (rest div 3600),
                minute = nat (rest mod 3600 div 60), second = nat (rest mod 60),
                microsecond = microsecond dt\<rparr>
         else Inl OverflowError)"

text \<open>Line 36: \<open>datetime.utcnow() + timedelta(hours=5, minutes=30)\<close>.\<close>

definition now_ist_dt :: "datetime \<Rightarrow> error + datetime" where
  "now_ist_dt utcnow = add_seconds utcnow (5 * 3600 + 30 * 60)"

text \<open>
  \<open>dt.time()\<close> and the order of naive \<open>time\<close> values: hour, minute, second and
  microsecond are compared in this order.
\<close>

type_synonym dtime = "nat \<times> nat \<times> nat \<times> nat"

definition time_of :: "datetime \<Rightarrow> dtime" where
  "time_of dt = (hour dt, minute dt, second dt, microsecond dt)"

fun time_le :: "dtime \<Rightarrow> dtime \<Rightarrow> bool" where
  "time_le (h1, m1, s1, u1) (h2, m2, s2, u2) =
     (h1 < h2 \<or> h1 = h2 \<and> (m1 < m2 \<or> m1 = m2 \<and> (s1 < s2 \<or> s1 = s2 \<and> u1 \<le> u2)))"

text \<open>Lines 44 to 47, for a given \<open>dt\<close>.\<close>

definition market_open :: "datetime \<Rightarrow> bool" where
  "market_open dt =
     (if 5 \<le> weekday dt then False
      else (let t = time_of dt in time_le (9, 15, 0, 0) t \<and> time_le t (15, 30, 0, 0)))"

text \<open>\<open>is_market_open_ist(dt=None)\<close>: without an argument the clock is read.\<close>

definition is_market_open_ist :: "datetime \<Rightarrow> datetime option \<Rightarrow> error + bool" where
  "is_market_open_ist utcnow dt =
     (case dt of
        Some d \<Rightarrow> Inr (market_open d)
      | None \<Rightarrow> (case now_ist_dt utcnow of Inl e \<Rightarrow> Inl e | Inr d \<Rightarrow> Inr (market_open d)))"

section \<open>Effects\<close>

text \<open>
  What the program does to the outside world is recorded as a list of events, in order:
  the calls of \<open>logging\<close> (with their message format), of \<open>requests.post\<close> (with the
  number of the attempt), of \<open>time.sleep\<close> (with the seconds), of the renderer, and the
  steps of the SMTP session.
\<close>

record message =
  msg_subject :: string
  msg_from :: string
  msg_to :: string
  msg_html :: string

datatype event =
    Log_info string
  | Log_warning string
  | Log_exception string
  | Http_post int
  | Sleep rat
  | Render
  | Smtp_connect string int
  | Smtp_starttls
  | Smtp_login string string
  | Smtp_sendmail string "string list" message
  | Smtp_quit

section \<open>The fetcher: \<open>yahoo_screener_most_active_india\<close>\<close>

text \<open>
  What one \<open>requests.post\<close> does: it raises, or it returns a response with a status code
  and a body, whose \<open>resp.json()\<close> raises or gives the decoded value.
\<close>

datatype response = Raises error | Http int "error + json"

text \<open>\<open>x.get(k, dflt)\<close> on any value: only a dict has \<open>get\<close>.\<close>

fun py_get :: "json \<Rightarrow> string \<Rightarrow> json \<Rightarrow> error + json" where
  "py_get (JDict d) k dflt = Inr (dict_get_default d k dflt)"
| "py_get v k dflt = Inl AttributeError"

text \<open>
  \<open>x[0]\<close>: the first element of a list, the first character of a string (its first
  byte and the continuation bytes after it), \<open>KeyError\<close> on a dict (the keys of
  decoded JSON are strings), \<open>TypeError\<close> on the rest.
\<close>

fun py_first :: "json \<Rightarrow> error + json" where
  "py_first (JList []) = Inl IndexError"
| "py_first (JList (x # xs)) = Inr x"
| "py_first (JStr []) = Inl IndexError"
| "py_first (JStr (c # cs)) =
     Inr (JStr (c # takeWhile (\<lambda>b. 128 \<le> (of_char b :: nat) \<and> (of_char b :: nat) < 192) cs))"
| "py_first (JDict d) = Inl KeyError"
| "py_first v = Inl TypeError"

text \<open>Line 70: \<open>data.get("finance", {}).get("result", [{}])[0].get("quotes", []) or []\<close>.\<close>

definition extract_quotes :: "json \<Rightarrow> error + json" where
  "extract_quotes data =
     (case py_get data ''finance'' (JDict []) of
        Inl e \<Rightarrow> Inl e
      | Inr fin \<Rightarrow>
          (case py_get fin ''result'' (JList [JDict []]) of
             Inl e \<Rightarrow> Inl e
           | Inr res \<Rightarrow>
               (case py_first res of
                  Inl e \<Rightarrow> Inl e
                | Inr r0 \<Rightarrow>
                    (case py_get r0 ''quotes'' (JList []) of
                       Inl e \<Rightarrow> Inl e
                     | Inr qs \<Rightarrow> Inr (py_or qs (JList []))))))"

text \<open>
  One pass through the \<open>try\<close> block (lines 66 to 73): the value returned, if the attempt
  returns, and the logging calls made. Every exception is caught by \<open>except Exception\<close>.
\<close>

definition attempt_once :: "response \<Rightarrow> json option \<times> event list" where
  "attempt_once r =
     (case r of
        Raises e \<Rightarrow> (None, [Log_exception ''Yahoo Screener attempt %d failed: %s''])
      | Http status body \<Rightarrow>
          if status = 200 then
            (case body of
               Inl e \<Rightarrow> (None, [Log_exception ''Yahoo Screener attempt %d failed: %s''])
             | Inr data \<Rightarrow>
                 (case extract_quotes data of
                    Inl e \<Rightarrow> (None, [Log_exception ''Yahoo Screener attempt %d failed: %s''])
                  | Inr qs \<Rightarrow> (Some qs, [])))
          else (None, [Log_warning ''Yahoo Screener HTTP %s: %s'']))"

text \<open>
  The loop of lines 65 to 75 over the attempt numbers still to run; \<open>net k\<close> is what the
  \<open>k\<close>-th post does. A failed attempt is followed by \<open>time.sleep(1.5 * attempt)\<close>.
\<close>

fun fetch_loop :: "(int \<Rightarrow> response) \<Rightarrow> int list \<Rightarrow> json \<times> event list" where
  "fetch_loop net [] = (JList [], [])"
| "fetch_loop net (attempt # rest) =
     (case attempt_once (net attempt) of
        (Some quotes, evs) \<Rightarrow> (quotes, Http_post attempt # evs)
      | (None, evs) \<Rightarrow>
          (let (result, later) = fetch_loop net rest
           in (result, Http_post attempt # evs @ Sleep (3 / 2 * of_int attempt) # later)))"

text \<open>\<open>range(1, retries + 1)\<close> is \<open>[1..retries]\<close>, empty when \<open>retries < 1\<close>.\<close>

definition yahoo_screener_most_active_india ::
    "(int \<Rightarrow> response) \<Rightarrow> int \<Rightarrow> int \<Rightarrow> int \<Rightarrow> json \<times> event list" where
  "yahoo_screener_most_active_india net sz retries timeout = fetch_loop net [1..retries]"

section \<open>Library functions taken as parameters\<close>

text \<open>
  The program calls a few library functions whose results depend on Unicode tables, on
  the formatting of floating-point numbers or on the calendar. They are parameters of the
  model, and every theorem holds for all of them:
  \<^item> \<open>py_int_of_str\<close> is \<open>int(s)\<close> on a string, \<open>None\<close> where it raises \<open>ValueError\<close>;
  \<^item> \<open>py_lower\<close> and \<open>py_strip\<close> are \<open>s.lower()\<close> and \<open>s.strip()\<close>;
  \<^item> \<open>py_strftime\<close> is \<open>dt.strftime("%Y-%m-%d %H:%M")\<close>;
  \<^item> \<open>py_format_2f\<close> is \<open>format(x, ".2f")\<close> on a number, which raises \<open>OverflowError\<close>
    on an integer too large for a float;
  \<^item> \<open>py_str\<close> is \<open>str(x)\<close> on a float, a list or a dict.
\<close>

record runtime =
  py_int_of_str :: "string \<Rightarrow> int option"
  py_lower :: "string \<Rightarrow> string"
  py_strip :: "string \<Rightarrow> string"
  py_strftime :: "datetime \<Rightarrow> string"
  py_format_2f :: "json \<Rightarrow> error + string"
  py_str :: "json \<Rightarrow> string"

section \<open>Formatting integers and strings\<close>

definition digit :: "nat \<Rightarrow> char" where
  "digit n = ''0123456789'' ! n"

fun str_nat :: "nat \<Rightarrow> string" where
  "str_nat n = (if n < 10 then [digit n] else str_nat (n div 10) @ [digit (n mod 10)])"

declare str_nat.simps [simp del]

text \<open>\<open>str(i)\<close> and \<open>f"{i}"\<close> for an integer.\<close>

definition str_int :: "int \<Rightarrow> string" where
  "str_int i = (if i < 0 then ''-'' @ str_nat (nat (- i)) else str_nat (nat i))"

text \<open>\<open>f"{i:,}"\<close>: the digits in groups of three, separated by commas.\<close>

fun group_thousands :: "nat \<Rightarrow> string" where
  "group_thousands n =
     (if n < 1000 then str_nat n
      else group_thousands (n div 1000) @ '','' @
           [digit (n mod 1000 div 100), digit (n mod 100 div 10), digit (n mod 10)])"

declare group_thousands.simps [simp del]

definition format_thousands :: "int \<Rightarrow> string" where
  "format_thousands i =
     (if i < 0 then ''-'' @ group_thousands (nat (- i)) else group_thousands (nat i))"

text \<open>\<open>f"{x}"\<close> for a decoded JSON value.\<close>

definition format_value :: "runtime \<Rightarrow> json \<Rightarrow> string" where
  "format_value rt x =
     (case x of
        JStr s \<Rightarrow> s
      | JInt i \<Rightarrow> str_int i
      | JBool b \<Rightarrow> (if b then ''True'' else ''False'')
      | JNull \<Rightarrow> ''None''
      | other \<Rightarrow> py_str rt other)"

text \<open>\<open>sep.join(xs)\<close> and \<open>s.split(",")\<close>.\<close>

fun join :: "string \<Rightarrow> string list \<Rightarrow> string" where
  "join sep [] = []"
| "join sep [x] = x"
| "join sep (x # y # ys) = x @ sep @ join sep (y # ys)"

fun split_comma :: "string \<Rightarrow> string list" where
  "split_comma [] = [[]]"
| "split_comma (c # cs) =
     (if c = CHR '','' then [] # split_comma cs
      else (case split_comma cs of [] \<Rightarrow> [[c]] | w # ws \<Rightarrow> (c # w) # ws))"

text \<open>Characters of the templates that are not printable ASCII, as UTF-8 bytes.\<close>

definition newline :: string where
  "newline = [CHR 0x0A]"

definition dquote :: string where
  "dquote = [CHR 0x22]"

definition squote :: string where
  "squote = [CHR 0x27]"

definition em_dash :: string where
  "em_dash = [CHR 0xE2, CHR 0x80, CHR 0x94]"

definition capital_delta :: string where
  "capital_delta = [CHR 0xCE, CHR 0x94]"

section \<open>The renderer: \<open>build_email_html\<close>\<close>

text \<open>Lines 106 to 108: two decimals, or \<open>"-"\<close> for \<open>None\<close>.\<close>

definition cell_2f :: "runtime \<Rightarrow> json \<Rightarrow> error + string" where
  "cell_2f rt x = (if x \<noteq> JNull then py_format_2f rt x else Inr ''-'')"

text \<open>The text added to \<open>body\<close> for row \<open>r\<close> with number \<open>i\<close> (lines 106 to 112).\<close>

definition row_html :: "runtime \<Rightarrow> int \<Rightarrow> row \<Rightarrow> error + string" where
  "row_html rt i r =
     (case cell_2f rt (price r) of
        Inl e \<Rightarrow> Inl e
      | Inr price_s \<Rightarrow>
          (case cell_2f rt (change r) of
             Inl e \<Rightarrow> Inl e
           | Inr chg \<Rightarrow>
               (case cell_2f rt (change_pct r) of
                  Inl e \<Rightarrow> Inl e
                | Inr chg_pct \<Rightarrow>
                    Inr (''<tr><td>'' @ str_int i @ ''</td><td>'' @ symbol r @ ''</td><td>''
                         @ format_value rt (name r) @ ''</td>''
                         @ ''<td>'' @ price_s @ ''</td><td>'' @ chg @ ''</td><td>'' @ chg_pct
                         @ ''</td><td>'' @ format_thousands (volume r) @ ''</td></tr>''))))"

text \<open>The loop \<open>for i, r in enumerate(rows, 1)\<close>, with the next number and the body so far.\<close>

fun tbl_body :: "runtime \<Rightarrow> int \<Rightarrow> row list \<Rightarrow> string \<Rightarrow> error + string" where
  "tbl_body rt i [] body = Inr body"
| "tbl_body rt i (r # rows) body =
     (case row_html rt i r of
        Inl e \<Rightarrow> Inl e
      | Inr h \<Rightarrow> tbl_body rt (i + 1) rows (body @ h))"

definition tbl_head :: string where
  "tbl_head =
     ''<tr><th>#</th><th>Symbol</th><th>Name</th><th>Price</th><th>'' @ capital_delta
     @ ''</th><th>'' @ capital_delta @ ''%</th><th>Volume</th></tr>''"

definition table_open :: string where
  "table_open =
     ''<table border='' @ squote @ ''1'' @ squote @ '' cellspacing='' @ squote @ ''0'' @ squote
     @ '' cellpadding='' @ squote @ ''6'' @ squote @ ''>''"

definition tbl :: "runtime \<Rightarrow> row list \<Rightarrow> string \<Rightarrow> error + string" where
  "tbl rt rows title =
     (if rows = [] then Inr (''<p>No data for '' @ title @ ''.</p>'')
      else (case tbl_body rt 1 rows [] of
              Inl e \<Rightarrow> Inl e
            | Inr body \<Rightarrow>
                Inr (''<h3>'' @ title @ ''</h3>'' @ table_open @ tbl_head @ body @ ''</table>'')))"

text \<open>
  The f-string of lines 114 to 124, given the two row counts and the two rendered tables.
\<close>

definition html_document :: "string \<Rightarrow> nat \<Rightarrow> string \<Rightarrow> nat \<Rightarrow> string \<Rightarrow> string" where
  "html_document ist_time_str n_nse nse_tbl n_bse bse_tbl =
     newline
     @ ''    <html><body>'' @ newline
     @ ''      <p><strong>Top '' @ str_int (int n_nse)
     @ '' Most Active (by volume) '' @ em_dash @ '' NSE</strong><br/>'' @ newline
     @ ''      <em>Run at '' @ ist_time_str @ '' IST</em></p>'' @ newline
     @ ''      '' @ nse_tbl @ newline
     @ ''      <br/>'' @ newline
     @ ''      <p><strong>Top '' @ str_int (int n_bse)
     @ '' Most Active (by volume) '' @ em_dash @ '' BSE</strong></p>'' @ newline
     @ ''      '' @ bse_tbl @ newline
     @ ''      <p style='' @ dquote @ ''color:#666;font-size:12px;'' @ dquote
     @ ''>Source: Yahoo Finance Screener (unofficial).</p>'' @ newline
     @ ''    </body></html>'' @ newline
     @ ''    ''"

definition build_email_html :: "runtime \<Rightarrow> string \<Rightarrow> row list \<Rightarrow> row list \<Rightarrow> error + string" where
  "build_email_html rt ist_time_str nse_rows bse_rows =
     (case tbl rt nse_rows ''NSE (.NS)'' of
        Inl e \<Rightarrow> Inl e
      | Inr nse_tbl \<Rightarrow>
          (case tbl rt bse_rows ''BSE (.BO)'' of
             Inl e \<Rightarrow> Inl e
           | Inr bse_tbl \<Rightarrow>
               Inr (html_document ist_time_str (length nse_rows) nse_tbl
                      (length bse_rows) bse_tbl)))"

section \<open>The configuration (lines 22 to 29)\<close>

record config =
  SMTP_HOST :: string
  SMTP_PORT :: int
  SMTP_USER :: string
  SMTP_PASS :: string
  FROM_EMAIL :: string
  TO_EMAILS :: "string list"
  TOP_N :: int
  ENFORCE_MARKET_HOURS :: bool

text \<open>\<open>os.getenv(k, dflt)\<close>; the environment is a map from names to values.\<close>

definition getenv :: "(string \<Rightarrow> string option) \<Rightarrow> string \<Rightarrow> string \<Rightarrow> string" where
  "getenv env k dflt = (case env k of None \<Rightarrow> dflt | Some v \<Rightarrow> v)"

text \<open>
  The module's settings, read when it is loaded; a port or a count that \<open>int\<close> refuses
  raises \<open>ValueError\<close> there.
\<close>

definition load_config :: "runtime \<Rightarrow> (string \<Rightarrow> string option) \<Rightarrow> error + config" where
  "load_config rt env =
     (case py_int_of_str rt (getenv env ''SMTP_PORT'' ''587'') of
        None \<Rightarrow> Inl ValueError
      | Some port \<Rightarrow>
          (case py_int_of_str rt (getenv env ''TOP_N'' ''10'') of
             None \<Rightarrow> Inl ValueError
           | Some n \<Rightarrow>
               Inr \<lparr>SMTP_HOST = getenv env ''SMTP_HOST'' [],
                    SMTP_PORT = port,
                    SMTP_USER = getenv env ''SMTP_USER'' [],
                    SMTP_PASS = getenv env ''SMTP_PASS'' [],
                    FROM_EMAIL = getenv env ''FROM_EMAIL'' (getenv env ''SMTP_USER'' []),
                    TO_EMAILS =
                      map (py_strip rt)
                        (filter (\<lambda>e. py_strip rt e \<noteq> [])
                           (split_comma (getenv env ''TO_EMAILS'' []))),
                    TOP_N = n,
                    ENFORCE_MARKET_HOURS =
                      (py_lower rt (getenv env ''ENFORCE_MARKET_HOURS'' ''true'')
                         \<in> set [''1'', ''true'', ''yes'', ''y''])\<rparr>))"

section \<open>The mail dispatcher: \<open>send_email\<close>\<close>

text \<open>
  The steps of the SMTP session that reach the network; \<open>smtp step\<close> is the exception
  the step raises, if it does.
\<close>

datatype smtp_step = Connect | Starttls | Login | Sendmail

text \<open>
  Lines 127 to 140. The session is a \<open>with\<close> block: once the connection stands, leaving
  the block quits the session, also when a step raised.
\<close>

definition send_email ::
    "config \<Rightarrow> (smtp_step \<Rightarrow> error option) \<Rightarrow> string \<Rightarrow> string \<Rightarrow> (error + unit) \<times> event list" where
  "send_email cfg smtp subject html_body =
     (if \<not> (SMTP_HOST cfg \<noteq> [] \<and> SMTP_PORT cfg \<noteq> 0 \<and> SMTP_USER cfg \<noteq> []
             \<and> SMTP_PASS cfg \<noteq> [] \<and> FROM_EMAIL cfg \<noteq> [] \<and> TO_EMAILS cfg \<noteq> [])
      then (Inl RuntimeError, [])
      else
        (let msg = \<lparr>msg_subject = subject, msg_from = FROM_EMAIL cfg,
                     msg_to = join '', '' (TO_EMAILS cfg), msg_html = html_body\<rparr>;
             connect = Smtp_connect (SMTP_HOST cfg) (SMTP_PORT cfg);
             login = Smtp_login (SMTP_USER cfg) (SMTP_PASS cfg);
             sendmail = Smtp_sendmail (FROM_EMAIL cfg) (TO_EMAILS cfg) msg
         in case smtp Connect of
              Some e \<Rightarrow> (Inl e, [connect])
            | None \<Rightarrow>
                (case smtp Starttls of
                   Some e \<Rightarrow> (Inl e, [connect, Smtp_starttls, Smtp_quit])
                 | None \<Rightarrow>
                     (case smtp Login of
                        Some e \<Rightarrow> (Inl e, [connect, Smtp_starttls, login, Smtp_quit])
                      | None \<Rightarrow>
                          (case smtp Sendmail of
                             Some e \<Rightarrow>
                               (Inl e, [connect, Smtp_starttls, login, sendmail, Smtp_quit])
                           | None \<Rightarrow>
                               (Inr (), [connect, Smtp_starttls, login, sendmail, Smtp_quit,
                                  Log_info ''Email sent to: %s'']))))))"

section \<open>The orchestrator: \<open>main\<close>\<close>

record world =
  clock :: datetime
  network :: "int \<Rightarrow> response"
  relay :: "smtp_step \<Rightarrow> error option"

text \<open>
  \<open>for q in quotes\<close> on whatever the fetcher returned: a list gives its elements, a
  string its characters, a dict its keys; a number is not iterable.
\<close>

fun py_iter :: "json \<Rightarrow> error + json list" where
  "py_iter (JList xs) = Inr xs"
| "py_iter (JStr s) = Inr (map (\<lambda>c. JStr [c]) s)"
| "py_iter (JDict d) = Inr (map (\<lambda>kv. JStr (fst kv)) d)"
| "py_iter v = Inl TypeError"

definition select_top_of :: "json \<Rightarrow> string \<Rightarrow> int \<Rightarrow> error + row list" where
  "select_top_of quotes suf n =
     (case py_iter quotes of
        Inl e \<Rightarrow> Inl e
      | Inr qs \<Rightarrow> select_top_by_exchange qs suf n)"

text \<open>Line 157: the subject of the mail.\<close>

definition mail_subject :: "config \<Rightarrow> string \<Rightarrow> string" where
  "mail_subject cfg ist_time_str =
     ''India Most-Active (Vol) '' @ em_dash @ '' NSE/BSE Top '' @ str_int (TOP_N cfg)
     @ '' @ '' @ ist_time_str @ '' IST''"

text \<open>Lines 154 to 159, once there are quotes.\<close>

definition report :: "runtime \<Rightarrow> config \<Rightarrow> world \<Rightarrow> string \<Rightarrow> json \<Rightarrow> (error + unit) \<times> event list" where
  "report rt cfg w ist_time_str quotes =
     (case select_top_of quotes ''.NS'' (TOP_N cfg) of
        Inl e \<Rightarrow> (Inl e, [])
      | Inr nse \<Rightarrow>
          (case select_top_of quotes ''.BO'' (TOP_N cfg) of
             Inl e \<Rightarrow> (Inl e, [])
           | Inr bse \<Rightarrow>
               (let subject = mail_subject cfg ist_time_str
                in case build_email_html rt ist_time_str nse bse of
                     Inl e \<Rightarrow> (Inl e, [Render])
                   | Inr html \<Rightarrow>
                       (let (res, evs) = send_email cfg (relay w) subject html
                        in (res, Render # evs)))))"

text \<open>Lines 142 to 159. The fetcher is called with its default three retries.\<close>

definition main :: "runtime \<Rightarrow> config \<Rightarrow> world \<Rightarrow> (error + unit) \<times> event list" where
  "main rt cfg w =
     (case now_ist_dt (clock w) of
        Inl e \<Rightarrow> (Inl e, [])
      | Inr ist_dt \<Rightarrow>
          (let ist_time_str = py_strftime rt ist_dt in
           if ENFORCE_MARKET_HOURS cfg \<and> is_market_open_ist (clock w) (Some ist_dt) = Inr False
           then (Inr (), [Log_info ''Outside Indian market hours. Skipping send. Now IST: %s''])
           else
             (let (quotes, fetched) =
                    yahoo_screener_most_active_india (network w) (max (TOP_N cfg * 6) 60) 3 15
              in if \<not> truthy quotes
                 then (Inr (), fetched @ [Log_warning ''No quotes fetched; aborting email.''])
                 else (let (res, evs) = report rt cfg w ist_time_str quotes
                       in (res, fetched @ evs)))))"

section \<open>Notions used to state the properties\<close>

text \<open>
  The row a quote contributes to the ranked list, if it contributes one: the quotes kept
  by the loop, in the order of the input, are \<open>List.map_filter (kept_row suf) quotes\<close>.
\<close>

definition kept_row :: "string \<Rightarrow> json \<Rightarrow> row option" where
  "kept_row suf q = (case quote_row suf q of Inr (Some r) \<Rightarrow> Some r | _ \<Rightarrow> None)"

text \<open>
  The volume as the specification words it: \<open>regularMarketVolume\<close> if present and
  numeric, else \<open>averageDailyVolume3Month\<close> if present and numeric, else 0.
\<close>

fun spec_numeric :: "json \<Rightarrow> bool" where
  "spec_numeric (JInt n) = True"
| "spec_numeric (JFloat f) = True"
| "spec_numeric v = False"

definition spec_volume :: "(string \<times> json) list \<Rightarrow> json" where
  "spec_volume q =
     (case map_of q ''regularMarketVolume'' of
        Some v \<Rightarrow>
          if spec_numeric v then v
          else (case map_of q ''averageDailyVolume3Month'' of
                  Some w \<Rightarrow> if spec_numeric w then w else JInt 0
                | None \<Rightarrow> JInt 0)
      | None \<Rightarrow>
          (case map_of q ''averageDailyVolume3Month'' of
             Some w \<Rightarrow> if spec_numeric w then w else JInt 0
           | None \<Rightarrow> JInt 0))"

text \<open>
  The time of day in microseconds since midnight, the well-formedness of the time fields,
  and the instant of a \<open>datetime\<close> in microseconds on the proleptic Gregorian time line.
\<close>

definition us_of_day :: "datetime \<Rightarrow> nat" where
  "us_of_day dt = ((hour dt * 60 + minute dt) * 60 + second dt) * 1000000 + microsecond dt"

definition valid_time :: "datetime \<Rightarrow> bool" where
  "valid_time dt =
     (hour dt < 24 \<and> minute dt < 60 \<and> second dt < 60 \<and> microsecond dt < 1000000)"

definition abs_us :: "datetime \<Rightarrow> int" where
  "abs_us dt = ordinal dt * 86400000000 + int (us_of_day dt)"

text \<open>
  An attempt of the fetcher fails when it does not return: the post raises, the status is
  not 200, the body is not JSON, or reading the quotes out of it raises.
\<close>

definition attempt_fails :: "response \<Rightarrow> bool" where
  "attempt_fails r = (fst (attempt_once r) = None)"

text \<open>The kinds of events: those of the fetcher, and those of the SMTP session.\<close>

fun is_fetch_event :: "event \<Rightarrow> bool" where
  "is_fetch_event (Http_post k) = True"
| "is_fetch_event (Sleep d) = True"
| "is_fetch_event (Log_warning s) = True"
| "is_fetch_event (Log_exception s) = True"
| "is_fetch_event e = False"

fun is_smtp_event :: "event \<Rightarrow> bool" where
  "is_smtp_event (Smtp_connect h p) = True"
| "is_smtp_event Smtp_starttls = True"
| "is_smtp_event (Smtp_login u p) = True"
| "is_smtp_event (Smtp_sendmail f t m) = True"
| "is_smtp_event Smtp_quit = True"
| "is_smtp_event e = False"

text \<open>
  A quote on which the loop of the ranker cannot raise: a dict whose \<open>symbol\<close> is a
  string or false in Python's sense, and whose volume converts to an integer.
\<close>

definition well_formed_quote :: "json \<Rightarrow> bool" where
  "well_formed_quote q =
     (case q of
        JDict d \<Rightarrow>
          (case dict_get d ''symbol'' of JStr s \<Rightarrow> True | v \<Rightarrow> \<not> truthy v)
          \<and> \<not> isl (quote_volume d)
      | other \<Rightarrow> False)"

text \<open>The precondition of \<open>send_email\<close>: all six settings are there.\<close>

definition complete :: "config \<Rightarrow> bool" where
  "complete cfg =
     (SMTP_HOST cfg \<noteq> [] \<and> SMTP_PORT cfg \<noteq> 0 \<and> SMTP_USER cfg \<noteq> [] \<and> SMTP_PASS cfg \<noteq> []
      \<and> FROM_EMAIL cfg \<noteq> [] \<and> TO_EMAILS cfg \<noteq> [])"


section \<open>Example inputs\<close>

definition ex_quotes :: "json list" where
  "ex_quotes =
     [JDict [(''symbol'', JStr ''TCS.NS''), (''regularMarketVolume'', JInt 500)],
      JDict [(''symbol'', JStr ''INFY.NS''), (''regularMarketVolume'', JInt 900)],
      JDict [(''symbol'', JStr ''X.BO''), (''regularMarketVolume'', JInt 100)],
      JDict [(''symbol'', JStr ''SBIN.NS''), (''averageDailyVolume3Month'', JInt 500)],
      JDict [(''shortName'', JStr ''no symbol''), (''regularMarketVolume'', JInt 7000)],
      JDict [(''symbol'', JStr ''LOW.ns''), (''regularMarketVolume'', JInt 8000)],
      JDict [(''symbol'', JStr ''ITC.NS''), (''regularMarketVolume'', JInt 200)]]"

definition ex_row :: "string \<Rightarrow> int \<Rightarrow> row" where
  "ex_row s v = \<lparr>symbol = s, name = JStr s, volume = v, price = JNull, change = JNull,
     change_pct = JNull\<rparr>"

definition zero_volume_quote :: "(string \<times> json) list" where
  "zero_volume_quote =
     [(''symbol'', JStr ''IDEA.NS''), (''regularMarketVolume'', JInt 0),
      (''averageDailyVolume3Month'', JInt 500)]"

definition vol_quote :: "json \<Rightarrow> json \<Rightarrow> (string \<times> json) list" where
  "vol_quote a b =
     [(''symbol'', JStr ''A.NS''), (''regularMarketVolume'', a), (''averageDailyVolume3Month'', b)]"

text \<open>A fetcher whose every post is answered with status 500.\<close>

definition all_500 :: "int \<Rightarrow> response" where
  "all_500 k = Http 500 (Inl ValueError)"

text \<open>
  Stand-ins for the library functions, right on the values the examples use, a complete
  configuration, a world in which the relay accepts every step, and an environment
  without \<open>SMTP_PASS\<close>.
\<close>

definition ex_runtime :: runtime where
  "ex_runtime =
     \<lparr>py_int_of_str = (\<lambda>s. if s = ''587'' then Some 587 else if s = ''10'' then Some 10 else None),
      py_lower = (\<lambda>s. s),
      py_strip = (\<lambda>s. s),
      py_strftime = (\<lambda>dt. ''2024-01-03 10:00''),
      py_format_2f = (\<lambda>x. case x of JInt i \<Rightarrow> Inr (str_int i @ ''.00'') | _ \<Rightarrow> Inl OverflowError),
      py_str = (\<lambda>x. ''?'')\<rparr>"

definition ex_config :: config where
  "ex_config =
     \<lparr>SMTP_HOST = ''smtp.example.org'', SMTP_PORT = 587, SMTP_USER = ''bot'',
      SMTP_PASS = ''secret'', FROM_EMAIL = ''bot@example.org'',
      TO_EMAILS = [''desk@example.org''], TOP_N = 10, ENFORCE_MARKET_HOURS = True\<rparr>"

definition ex_world :: "datetime \<Rightarrow> (int \<Rightarrow> response) \<Rightarrow> world" where
  "ex_world now responses = \<lparr>clock = now, network = responses, relay = (\<lambda>step. None)\<rparr>"

definition ex_env :: "string \<Rightarrow> string option" where
  "ex_env =
     map_of [(''SMTP_HOST'', ''smtp.example.org''), (''SMTP_USER'', ''bot''),
             (''TO_EMAILS'', ''desk@example.org'')]"




text \<open>
  The scenario of the specification: three quotes, the body of a screener response that
  carries them, the world in which every post is answered with it on a Wednesday at
  04:30 UTC, and the document rendered from it.
\<close>

definition scenario_quotes :: "json list" where
  "scenario_quotes =
     [JDict [(''symbol'', JStr ''TCS.NS''), (''regularMarketVolume'', JInt 500)],
      JDict [(''symbol'', JStr ''INFY.NS''), (''regularMarketVolume'', JInt 900)],
      JDict [(''symbol'', JStr ''X.BO''), (''regularMarketVolume'', JInt 100)]]"

definition screener_body :: "json \<Rightarrow> json" where
  "screener_body qs =
     JDict [(''finance'', JDict [(''result'', JList [JDict [(''quotes'', qs)]])])]"

definition scenario_html :: string where
  "scenario_html =
     html_document ''2024-01-03 10:00''
       2 (''<h3>NSE (.NS)</h3>'' @ table_open @ tbl_head
          @ ''<tr><td>1</td><td>INFY.NS</td><td>INFY.NS</td><td>-</td><td>-</td><td>-</td><td>900</td></tr>''
          @ ''<tr><td>2</td><td>TCS.NS</td><td>TCS.NS</td><td>-</td><td>-</td><td>-</td><td>500</td></tr>''
          @ ''</table>'')
       1 (''<h3>BSE (.BO)</h3>'' @ table_open @ tbl_head
          @ ''<tr><td>1</td><td>X.BO</td><td>X.BO</td><td>-</td><td>-</td><td>-</td><td>100</td></tr>''
          @ ''</table>'')"

definition scenario_world :: world where
  "scenario_world =
     ex_world (mk_datetime 2024 1 3 4 30 0 0)
       (\<lambda>k. Http 200 (Inr (screener_body (JList scenario_quotes))))"


section \<open>Properties of the ranker\<close>

lemma endswith_suffix: "endswith s suf \<longleftrightarrow> suffix suf s"
proof
  assume "endswith s suf"
  then have "s = take (length s - length suf) s @ suf"
    by (metis append_take_drop_id endswith_def)
  then show "suffix suf s" by (metis suffixI)
next
  assume "suffix suf s"
  then obtain zs where "s = zs @ suf" by (auto simp: suffix_def)
  then show "endswith s suf" by (simp add: endswith_def)
qed

lemma collect_rows_acc:
  "collect_rows suf quotes acc = Inr rows \<Longrightarrow>
     rows = acc @ List.map_filter (kept_row suf) quotes"
proof (induction quotes arbitrary: acc)
  case Nil
  then show ?case by simp
next
  case (Cons q quotes)
  show ?case
  proof (cases "quote_row suf q")
    case (Inl e)
    with Cons.prems show ?thesis by simp
  next
    case (Inr opt)
    show ?thesis
    proof (cases opt)
      case None
      with Inr Cons.prems have "collect_rows suf quotes acc = Inr rows" by simp
      from Cons.IH [OF this] Inr None show ?thesis
        by (simp add: kept_row_def)
    next
      case (Some r)
      with Inr Cons.prems have "collect_rows suf quotes (acc @ [r]) = Inr rows" by simp
      from Cons.IH [OF this] Inr Some show ?thesis
        by (simp add: kept_row_def)
    qed
  qed
qed

lemma collect_rows_skip:
  "quote_row suf q = Inr None \<Longrightarrow>
     collect_rows suf (xs @ q # ys) acc = collect_rows suf (xs @ ys) acc"
  by (induction xs arbitrary: acc) (auto split: sum.splits option.splits)

lemma quote_row_symbol:
  "quote_row suf q = Inr (Some r) \<Longrightarrow>
     quote_sym q = Inr (JStr (symbol r)) \<and> endswith (symbol r) suf"
  by (cases q) (auto split: sum.splits json.splits if_splits)

lemma quote_row_mismatch:
  "quote_sym q = Inr (JStr s) \<Longrightarrow> \<not> endswith s suf \<Longrightarrow> quote_row suf q = Inr None"
  by (cases q) (auto split: sum.splits json.splits if_splits)

lemma sorted_sort_rows: "sorted_wrt (\<lambda>a b. volume b \<le> volume a) (sort_rows rows)"
proof -
  have "sorted (map (\<lambda>r. - volume r) (sort_rows rows))"
    by (simp add: sort_rows_def)
  then show ?thesis
    by (simp add: sorted_map sorted_wrt_iff_nth_less)
qed

lemma stable_sort_rows:
  "filter (\<lambda>r. volume r = v) (sort_rows rows) = filter (\<lambda>r. volume r = v) rows"
proof -
  have "filter (\<lambda>r. - volume r = - v) (sort_key (\<lambda>r. - volume r) rows)
      = filter (\<lambda>r. - volume r = - v) rows"
    by (rule sort_key_stable)
  then show ?thesis by (simp add: sort_rows_def)
qed

lemma slice_to_prefix: "prefix (slice_to xs n) xs"
  by (simp add: slice_to_def take_is_prefix)

lemma length_slice_to: "0 \<le> n \<Longrightarrow> int (length (slice_to xs n)) \<le> n"
  by (simp add: slice_to_def)

lemma prefix_filter: "prefix xs ys \<Longrightarrow> prefix (filter P xs) (filter P ys)"
  by (auto simp: prefix_def)

lemma sorted_wrt_prefix: "prefix xs ys \<Longrightarrow> sorted_wrt R ys \<Longrightarrow> sorted_wrt R xs"
  by (auto simp: prefix_def sorted_wrt_append)

lemma quote_row_volume:
  "quote_row suf (JDict q) = Inr (Some r) \<Longrightarrow> quote_volume q = Inr (volume r)"
  by (auto split: sum.splits json.splits if_splits)

lemma py_int_falsy: "\<not> truthy v \<Longrightarrow> is_int_or_float v \<Longrightarrow> py_int v = Inr 0"
proof (cases v)
  case (JFloat f)
  assume "\<not> truthy v"
  with JFloat show ?thesis by (cases f) auto
qed auto

text \<open>
  Claim C1. For every list of quotes, every suffix and every count \<open>top_n \<ge> 0\<close>,
  whenever \<open>select_top_by_exchange\<close> returns a list, that list has at most \<open>top_n\<close> rows,
  is sorted by volume, largest first, and rows of equal volume stand in the order in which
  their quotes stand in the input: for every volume, the rows of that volume in the output
  are the first ones of that volume among the kept rows.
\<close>

theorem select_top_sorted_stable:
  assumes "select_top_by_exchange quotes suf top_n = Inr out" and "0 \<le> top_n"
  shows "int (length out) \<le> top_n
    \<and> sorted_wrt (\<lambda>a b. volume b \<le> volume a) out
    \<and> (\<forall>v. prefix (filter (\<lambda>r. volume r = v) out)
              (filter (\<lambda>r. volume r = v) (List.map_filter (kept_row suf) quotes)))"
proof -
  from assms(1) obtain rows where rows: "collect_rows suf quotes [] = Inr rows"
    and out: "out = slice_to (sort_rows rows) top_n"
    by (auto simp: select_top_by_exchange_def split: sum.splits)
  from collect_rows_acc [OF rows] have kept: "rows = List.map_filter (kept_row suf) quotes"
    by simp
  have pre: "prefix out (sort_rows rows)"
    unfolding out by (rule slice_to_prefix)
  have "int (length out) \<le> top_n"
    unfolding out using assms(2) by (rule length_slice_to)
  moreover have "sorted_wrt (\<lambda>a b. volume b \<le> volume a) out"
    using pre sorted_sort_rows by (rule sorted_wrt_prefix)
  moreover have "prefix (filter (\<lambda>r. volume r = v) out) (filter (\<lambda>r. volume r = v) rows)" for v
    using prefix_filter [OF pre, of "\<lambda>r. volume r = v"] by (simp add: stable_sort_rows)
  ultimately show ?thesis by (simp add: kept)
qed

theorem select_top_sorted_stable_witness:
  "select_top_by_exchange ex_quotes ''.NS'' 3 =
     Inr [ex_row ''INFY.NS'' 900, ex_row ''TCS.NS'' 500, ex_row ''SBIN.NS'' 500]
   \<and> int (length [ex_row ''INFY.NS'' 900, ex_row ''TCS.NS'' 500, ex_row ''SBIN.NS'' 500]) \<le> 3
   \<and> sorted_wrt (\<lambda>a b. volume b \<le> volume a)
        [ex_row ''INFY.NS'' 900, ex_row ''TCS.NS'' 500, ex_row ''SBIN.NS'' 500]
   \<and> (\<forall>v. prefix
          (filter (\<lambda>r. volume r = v)
             [ex_row ''INFY.NS'' 900, ex_row ''TCS.NS'' 500, ex_row ''SBIN.NS'' 500])
          (filter (\<lambda>r. volume r = v) (List.map_filter (kept_row ''.NS'') ex_quotes)))"
proof -
  have h: "select_top_by_exchange ex_quotes ''.NS'' 3 =
     Inr [ex_row ''INFY.NS'' 900, ex_row ''TCS.NS'' 500, ex_row ''SBIN.NS'' 500]"
    by code_simp
  have n: "(0::int) \<le> 3" by simp
  from select_top_sorted_stable [OF h n] h show ?thesis by simp
qed

text \<open>
  Claim C2, as the code has it. The volume of a kept quote is taken from
  \<open>regularMarketVolume\<close> when that value is true in Python's sense (not missing, \<open>None\<close>,
  zero, false or empty): converted by \<open>int\<close> when it is a number, and 0 when it is not
  (\<open>averageDailyVolume3Month\<close> is then not looked at). Otherwise it is taken from
  \<open>averageDailyVolume3Month\<close>: converted by \<open>int\<close> when that is a number, and 0 when it
  is not. A quote with neither field has volume 0. The four cases cover every kept quote.
\<close>

theorem quote_volume_cases:
  assumes "quote_row suf (JDict q) = Inr (Some r)"
  shows "(truthy (dict_get q ''regularMarketVolume'') \<and> is_int_or_float (dict_get q ''regularMarketVolume'') \<longrightarrow>
           py_int (dict_get q ''regularMarketVolume'') = Inr (volume r))
    \<and> (truthy (dict_get q ''regularMarketVolume'') \<and> \<not> is_int_or_float (dict_get q ''regularMarketVolume'') \<longrightarrow>
           volume r = 0)
    \<and> (\<not> truthy (dict_get q ''regularMarketVolume'') \<and> is_int_or_float (dict_get q ''averageDailyVolume3Month'') \<longrightarrow>
           py_int (dict_get q ''averageDailyVolume3Month'') = Inr (volume r))
    \<and> (\<not> truthy (dict_get q ''regularMarketVolume'') \<and> \<not> is_int_or_float (dict_get q ''averageDailyVolume3Month'') \<longrightarrow>
           volume r = 0)
    \<and> (map_of q ''regularMarketVolume'' = None \<and> map_of q ''averageDailyVolume3Month'' = None \<longrightarrow>
           volume r = 0)"
proof -
  let ?a = "dict_get q ''regularMarketVolume''"
  let ?b = "dict_get q ''averageDailyVolume3Month''"
  from quote_row_volume [OF assms] have v: "quote_volume q = Inr (volume r)" .
  have 1: "py_int ?a = Inr (volume r)" if "truthy ?a" "is_int_or_float ?a"
    using v that by (simp add: quote_volume_def quote_vol_def py_or_def)
  have 2: "volume r = 0" if "truthy ?a" "\<not> is_int_or_float ?a"
    using v that by (simp add: quote_volume_def quote_vol_def py_or_def)
  have 3: "py_int ?b = Inr (volume r)" if "\<not> truthy ?a" "is_int_or_float ?b"
  proof (cases "truthy ?b")
    case True
    with v that show ?thesis by (simp add: quote_volume_def quote_vol_def py_or_def)
  next
    case False
    with v that have "volume r = 0" by (simp add: quote_volume_def quote_vol_def py_or_def)
    with py_int_falsy [OF False that(2)] show ?thesis by simp
  qed
  have 4: "volume r = 0" if "\<not> truthy ?a" "\<not> is_int_or_float ?b"
    using v that by (simp add: quote_volume_def quote_vol_def py_or_def split: if_splits)
  have 5: "volume r = 0"
    if "map_of q ''regularMarketVolume'' = None" "map_of q ''averageDailyVolume3Month'' = None"
    using 4 that by (simp add: dict_get_def dict_get_default_def)
  from 1 2 3 4 5 show ?thesis by blast
qed

theorem quote_volume_cases_witness:
  "py_int (dict_get (vol_quote (JFloat (Finite False 25 (- 1))) (JInt 500)) ''regularMarketVolume'')
     = Inr (volume (ex_row ''A.NS'' 12))
   \<and> quote_row ''.NS'' (JDict (vol_quote (JStr ''123'') (JInt 500))) = Inr (Some (ex_row ''A.NS'' 0))
   \<and> volume (ex_row ''A.NS'' 0) = 0
   \<and> py_int (dict_get (vol_quote (JInt 0) (JInt 500)) ''averageDailyVolume3Month'')
     = Inr (volume (ex_row ''A.NS'' 500))
   \<and> quote_row ''.NS'' (JDict [(''symbol'', JStr ''A.NS'')]) = Inr (Some (ex_row ''A.NS'' 0))"
proof -
  have r1: "quote_row ''.NS'' (JDict (vol_quote (JFloat (Finite False 25 (- 1))) (JInt 500)))
      = Inr (Some (ex_row ''A.NS'' 12))"
    by code_simp
  have c1: "truthy (dict_get (vol_quote (JFloat (Finite False 25 (- 1))) (JInt 500)) ''regularMarketVolume'')
      \<and> is_int_or_float (dict_get (vol_quote (JFloat (Finite False 25 (- 1))) (JInt 500)) ''regularMarketVolume'')"
    by code_simp
  have r2: "quote_row ''.NS'' (JDict (vol_quote (JStr ''123'') (JInt 500)))
      = Inr (Some (ex_row ''A.NS'' 0))"
    by code_simp
  have c2: "truthy (dict_get (vol_quote (JStr ''123'') (JInt 500)) ''regularMarketVolume'')
      \<and> \<not> is_int_or_float (dict_get (vol_quote (JStr ''123'') (JInt 500)) ''regularMarketVolume'')"
    by code_simp
  have r3: "quote_row ''.NS'' (JDict (vol_quote (JInt 0) (JInt 500)))
      = Inr (Some (ex_row ''A.NS'' 500))"
    by code_simp
  have c3: "\<not> truthy (dict_get (vol_quote (JInt 0) (JInt 500)) ''regularMarketVolume'')
      \<and> is_int_or_float (dict_get (vol_quote (JInt 0) (JInt 500)) ''averageDailyVolume3Month'')"
    by code_simp
  have r5: "quote_row ''.NS'' (JDict [(''symbol'', JStr ''A.NS'')]) = Inr (Some (ex_row ''A.NS'' 0))"
    by code_simp
  have c5: "map_of [(''symbol'', JStr ''A.NS'')] ''regularMarketVolume'' = None
      \<and> map_of [(''symbol'', JStr ''A.NS'')] ''averageDailyVolume3Month'' = None"
    by simp
  from quote_volume_cases [OF r1] c1
  have "py_int (dict_get (vol_quote (JFloat (Finite False 25 (- 1))) (JInt 500)) ''regularMarketVolume'')
     = Inr (volume (ex_row ''A.NS'' 12))" by blast
  moreover from quote_volume_cases [OF r2] c2 have "volume (ex_row ''A.NS'' 0) = 0" by blast
  moreover from quote_volume_cases [OF r3] c3
  have "py_int (dict_get (vol_quote (JInt 0) (JInt 500)) ''averageDailyVolume3Month'')
     = Inr (volume (ex_row ''A.NS'' 500))" by blast
  moreover from quote_volume_cases [OF r5] c5 have "volume (ex_row ''A.NS'' 0) = 0" by blast
  ultimately show ?thesis using r2 r5 by blast
qed

text \<open>
  Claim C2 as stated fails for a quote whose \<open>regularMarketVolume\<close> is the number 0 and
  whose \<open>averageDailyVolume3Month\<close> is 500: the field is present and numeric, so the
  claim gives volume 0, and the code gives 500.
\<close>

theorem zero_volume_counterexample:
  "select_top_by_exchange [JDict zero_volume_quote] ''.NS'' 10 = Inr [ex_row ''IDEA.NS'' 500]
   \<and> volume (ex_row ''IDEA.NS'' 500) = 500
   \<and> spec_volume zero_volume_quote = JInt 0"
  by code_simp

text \<open>
  Claim C7. Every row of the ranked list has a symbol that ends with the suffix, compared
  character by character, and is the row of a quote of the input with that symbol. A quote
  whose symbol does not end with the suffix contributes no row, and the result is the
  same as without it.
\<close>

theorem select_top_suffix_only:
  "(select_top_by_exchange quotes suf top_n = Inr out \<longrightarrow>
      (\<forall>r \<in> set out. suffix suf (symbol r) \<and>
         (\<exists>q \<in> set quotes. quote_sym q = Inr (JStr (symbol r)) \<and> quote_row suf q = Inr (Some r))))
   \<and> (quote_sym q = Inr (JStr s) \<and> \<not> suffix suf s \<longrightarrow>
        quote_row suf q = Inr None \<and>
        select_top_by_exchange (xs @ q # ys) suf top_n = select_top_by_exchange (xs @ ys) suf top_n)"
proof -
  have rows_ok: "suffix suf (symbol r) \<and>
         (\<exists>q \<in> set quotes. quote_sym q = Inr (JStr (symbol r)) \<and> quote_row suf q = Inr (Some r))"
    if sel: "select_top_by_exchange quotes suf top_n = Inr out" and r: "r \<in> set out" for r
  proof -
    from sel obtain rows where rows: "collect_rows suf quotes [] = Inr rows"
      and out: "out = slice_to (sort_rows rows) top_n"
      by (auto simp: select_top_by_exchange_def split: sum.splits)
    have "set out \<subseteq> set (sort_rows rows)"
      unfolding out by (rule set_mono_prefix) (rule slice_to_prefix)
    with r have "r \<in> set rows" by (auto simp: sort_rows_def)
    with collect_rows_acc [OF rows] obtain q where q: "q \<in> set quotes" "kept_row suf q = Some r"
      by (auto simp: map_filter_def)
    from q(2) have qr: "quote_row suf q = Inr (Some r)"
      by (auto simp: kept_row_def split: sum.splits option.splits)
    from quote_row_symbol [OF qr] q(1) qr show ?thesis
      by (auto simp: endswith_suffix)
  qed
  have skipped: "quote_row suf q = Inr None \<and>
        select_top_by_exchange (xs @ q # ys) suf top_n = select_top_by_exchange (xs @ ys) suf top_n"
    if a: "quote_sym q = Inr (JStr s)" "\<not> suffix suf s"
  proof -
    from a have "quote_row suf q = Inr None"
      by (simp add: quote_row_mismatch endswith_suffix)
    then show ?thesis
      by (simp add: select_top_by_exchange_def collect_rows_skip)
  qed
  from rows_ok skipped show ?thesis by blast
qed

theorem select_top_suffix_only_witness:
  "select_top_by_exchange ex_quotes ''.NS'' 3 =
     Inr [ex_row ''INFY.NS'' 900, ex_row ''TCS.NS'' 500, ex_row ''SBIN.NS'' 500]
   \<and> suffix ''.NS'' (symbol (ex_row ''INFY.NS'' 900))
   \<and> suffix ''.NS'' (symbol (ex_row ''TCS.NS'' 500))
   \<and> suffix ''.NS'' (symbol (ex_row ''SBIN.NS'' 500))
   \<and> quote_row ''.NS'' (JDict [(''symbol'', JStr ''LOW.ns''), (''regularMarketVolume'', JInt 8000)])
       = Inr None
   \<and> select_top_by_exchange
        ([] @ JDict [(''symbol'', JStr ''LOW.ns''), (''regularMarketVolume'', JInt 8000)] # ex_quotes)
        ''.NS'' 3
       = select_top_by_exchange ([] @ ex_quotes) ''.NS'' 3"
proof -
  have h: "select_top_by_exchange ex_quotes ''.NS'' 3 =
     Inr [ex_row ''INFY.NS'' 900, ex_row ''TCS.NS'' 500, ex_row ''SBIN.NS'' 500]"
    by code_simp
  have s: "quote_sym (JDict [(''symbol'', JStr ''LOW.ns''), (''regularMarketVolume'', JInt 8000)])
      = Inr (JStr ''LOW.ns'') \<and> \<not> suffix ''.NS'' ''LOW.ns''"
    by (simp add: dict_get_def dict_get_default_def py_or_def suffix_Cons)
  note t = select_top_suffix_only [where quotes = ex_quotes and suf = "''.NS''" and top_n = 3
      and out = "[ex_row ''INFY.NS'' 900, ex_row ''TCS.NS'' 500, ex_row ''SBIN.NS'' 500]"
      and q = "JDict [(''symbol'', JStr ''LOW.ns''), (''regularMarketVolume'', JInt 8000)]"
      and s = "''LOW.ns''" and xs = "[]" and ys = ex_quotes]
  from t h have "\<forall>r \<in> set [ex_row ''INFY.NS'' 900, ex_row ''TCS.NS'' 500, ex_row ''SBIN.NS'' 500].
      suffix ''.NS'' (symbol r)" by blast
  then have a: "suffix ''.NS'' (symbol (ex_row ''INFY.NS'' 900))
      \<and> suffix ''.NS'' (symbol (ex_row ''TCS.NS'' 500))
      \<and> suffix ''.NS'' (symbol (ex_row ''SBIN.NS'' 500))" by simp
  from t s have b: "quote_row ''.NS'' (JDict [(''symbol'', JStr ''LOW.ns''), (''regularMarketVolume'', JInt 8000)])
       = Inr None
   \<and> select_top_by_exchange
        ([] @ JDict [(''symbol'', JStr ''LOW.ns''), (''regularMarketVolume'', JInt 8000)] # ex_quotes)
        ''.NS'' 3
       = select_top_by_exchange ([] @ ex_quotes) ''.NS'' 3" by blast
  from h a b show ?thesis by blast
qed

text \<open>
  Claim C10. For a non-empty suffix, a quote whose \<open>symbol\<close> is missing or \<open>None\<close> is
  read as having the empty symbol, contributes no row, and the result is the same as
  without it.
\<close>

theorem missing_symbol_excluded:
  assumes "suf \<noteq> []"
    and "map_of q ''symbol'' = None \<or> map_of q ''symbol'' = Some JNull"
  shows "quote_sym (JDict q) = Inr (JStr [])
    \<and> quote_row suf (JDict q) = Inr None
    \<and> select_top_by_exchange (xs @ JDict q # ys) suf top_n =
        select_top_by_exchange (xs @ ys) suf top_n"
proof -
  from assms(2) have s: "quote_sym (JDict q) = Inr (JStr [])"
    by (auto simp: dict_get_def dict_get_default_def py_or_def)
  from assms(1) have "\<not> endswith [] suf" by (simp add: endswith_def)
  with s have n: "quote_row suf (JDict q) = Inr None" by (rule quote_row_mismatch)
  from s n show ?thesis by (simp add: select_top_by_exchange_def collect_rows_skip)
qed


theorem missing_symbol_excluded_witness:
  "quote_sym (JDict [(''shortName'', JStr ''no symbol''), (''regularMarketVolume'', JInt 7000)])
     = Inr (JStr [])
   \<and> quote_row ''.NS'' (JDict [(''shortName'', JStr ''no symbol''), (''regularMarketVolume'', JInt 7000)])
     = Inr None
   \<and> select_top_by_exchange
       ([] @ JDict [(''shortName'', JStr ''no symbol''), (''regularMarketVolume'', JInt 7000)] # ex_quotes)
       ''.NS'' 3
     = select_top_by_exchange ([] @ ex_quotes) ''.NS'' 3"
proof -
  have h1: "''.NS'' \<noteq> []" by simp
  have h2: "map_of [(''shortName'', JStr ''no symbol''), (''regularMarketVolume'', JInt 7000)] ''symbol'' = None
    \<or> map_of [(''shortName'', JStr ''no symbol''), (''regularMarketVolume'', JInt 7000)] ''symbol'' = Some JNull"
    by simp
  show ?thesis by (rule missing_symbol_excluded [OF h1 h2])
qed

section \<open>Properties of the market gate\<close>

lemma lex_radix:
  fixes a1 a2 b1 b2 B :: nat
  assumes "b1 < B" "b2 < B"
  shows "(a1 < a2 \<or> a1 = a2 \<and> b1 \<le> b2) \<longleftrightarrow> a1 * B + b1 \<le> a2 * B + b2"
proof (cases a1 a2 rule: linorder_cases)
  case less
  then have "Suc a1 * B \<le> a2 * B" by (intro mult_le_mono1) simp
  with assms less show ?thesis by simp
next
  case equal
  then show ?thesis by simp
next
  case greater
  then have "Suc a2 * B \<le> a1 * B" by (intro mult_le_mono1) simp
  with assms greater show ?thesis by simp
qed

lemma lex_radix_eq:
  fixes a1 a2 b1 b2 B :: nat
  assumes "b1 < B" "b2 < B"
  shows "a1 * B + b1 = a2 * B + b2 \<longleftrightarrow> a1 = a2 \<and> b1 = b2"
  using lex_radix [OF assms, of a1 a2] lex_radix [OF assms(2,1), of a2 a1] by auto

lemma lex_radix_less:
  fixes a1 a2 b1 b2 B :: nat
  assumes "b1 < B" "b2 < B"
  shows "a1 * B + b1 < a2 * B + b2 \<longleftrightarrow> a1 < a2 \<or> a1 = a2 \<and> b1 < b2"
  using lex_radix [OF assms(2,1), of a2 a1] by auto

lemma time_le_us:
  assumes "m1 < 60" "s1 < 60" "u1 < 1000000" "m2 < 60" "s2 < 60" "u2 < 1000000"
  shows "time_le (h1, m1, s1, u1) (h2, m2, s2, u2) \<longleftrightarrow>
     ((h1 * 60 + m1) * 60 + s1) * 1000000 + u1 \<le> ((h2 * 60 + m2) * 60 + s2) * 1000000 + u2"
proof -
  let ?a1 = "h1 * 60 + m1" and ?a2 = "h2 * 60 + m2"
  let ?b1 = "?a1 * 60 + s1" and ?b2 = "?a2 * 60 + s2"
  have "?b1 * 1000000 + u1 \<le> ?b2 * 1000000 + u2
      \<longleftrightarrow> (?b1 < ?b2 \<or> ?b1 = ?b2 \<and> u1 \<le> u2)"
    by (rule lex_radix [symmetric, OF assms(3,6)])
  also have "\<dots> \<longleftrightarrow> ((?a1 < ?a2 \<or> ?a1 = ?a2 \<and> s1 < s2) \<or> (?a1 = ?a2 \<and> s1 = s2) \<and> u1 \<le> u2)"
    by (simp only: lex_radix_less [OF assms(2,5)] lex_radix_eq [OF assms(2,5)])
  also have "\<dots> \<longleftrightarrow> (((h1 < h2 \<or> h1 = h2 \<and> m1 < m2) \<or> (h1 = h2 \<and> m1 = m2) \<and> s1 < s2)
      \<or> ((h1 = h2 \<and> m1 = m2) \<and> s1 = s2) \<and> u1 \<le> u2)"
    by (simp only: lex_radix_less [OF assms(1,4)] lex_radix_eq [OF assms(1,4)])
  also have "\<dots> \<longleftrightarrow> time_le (h1, m1, s1, u1) (h2, m2, s2, u2)"
    by (simp only: time_le.simps) blast
  finally show ?thesis by (rule sym)
qed

lemma market_open_window:
  assumes "valid_time dt"
  shows "market_open dt \<longleftrightarrow>
     weekday dt \<in> {0, 1, 2, 3, 4} \<and> 33300000000 \<le> us_of_day dt \<and> us_of_day dt \<le> 55800000000"
proof -
  from assms have v: "minute dt < 60" "second dt < 60" "microsecond dt < 1000000"
    by (simp_all add: valid_time_def)
  have w: "0 \<le> weekday dt" by (simp add: weekday_def)
  have a: "time_le (9, 15, 0, 0) (time_of dt) \<longleftrightarrow> 33300000000 \<le> us_of_day dt"
    unfolding time_of_def us_of_day_def using time_le_us [of 15 0 0 "minute dt" "second dt" "microsecond dt" 9 "hour dt"] v
    by simp
  have b: "time_le (time_of dt) (15, 30, 0, 0) \<longleftrightarrow> us_of_day dt \<le> 55800000000"
    unfolding time_of_def us_of_day_def using time_le_us [of "minute dt" "second dt" "microsecond dt" 30 0 0 "hour dt" 15] v
    by simp
  have c: "\<not> 5 \<le> weekday dt \<longleftrightarrow> weekday dt \<in> {0, 1, 2, 3, 4}"
    using w by auto
  show ?thesis
    unfolding market_open_def Let_def using a b c by auto
qed

lemma add_seconds_abs:
  assumes "valid_time dt" "add_seconds dt s = Inr d"
  shows "valid_time d \<and> abs_us d = abs_us dt + s * 1000000"
proof -
  define secs where "secs = int (hour dt) * 3600 + int (minute dt) * 60 + int (second dt) + s"
  define rest where "rest = secs mod 86400"
  have r: "0 \<le> rest" "rest < 86400" by (simp_all add: rest_def)
  from assms(2) have d: "d = \<lparr>ordinal = ordinal dt + secs div 86400, hour = nat (rest div 3600),
                minute = nat (rest mod 3600 div 60), second = nat (rest mod 60),
                microsecond = microsecond dt\<rparr>"
    by (auto simp: add_seconds_def Let_def secs_def rest_def split: if_splits)
  have h: "rest div 3600 < 24" "0 \<le> rest div 3600" using r by auto
  have m: "rest mod 3600 div 60 < 60" "0 \<le> rest mod 3600 div 60" by auto
  have s': "rest mod 60 < 60" "0 \<le> rest mod 60" by auto
  have "rest mod 3600 mod 60 = rest mod 60"
    by (rule mod_mod_cancel) simp
  then have b: "rest mod 3600 div 60 * 60 + rest mod 60 = rest mod 3600"
    using div_mult_mod_eq [of "rest mod 3600" 60] by simp
  have a: "rest div 3600 * 3600 + rest mod 3600 = rest"
    by simp
  have "(rest div 3600 * 60 + rest mod 3600 div 60) * 60 + rest mod 60
      = rest div 3600 * 3600 + (rest mod 3600 div 60 * 60 + rest mod 60)"
    by (simp add: algebra_simps)
  also have "\<dots> = rest" by (simp only: b a)
  finally have split: "(rest div 3600 * 60 + rest mod 3600 div 60) * 60 + rest mod 60 = rest" .
  have v: "valid_time d"
    using assms(1) h m s' by (simp add: d valid_time_def nat_less_iff)
  have "int (us_of_day d) =
      ((rest div 3600 * 60 + rest mod 3600 div 60) * 60 + rest mod 60) * 1000000
        + int (microsecond dt)"
    using h m s' by (simp add: d us_of_day_def)
  then have u: "int (us_of_day d) = rest * 1000000 + int (microsecond dt)"
    by (simp only: split)
  have "secs = secs div 86400 * 86400 + rest"
    by (simp add: rest_def)
  then have "abs_us d = ordinal dt * 86400000000 + secs * 1000000 + int (microsecond dt)"
    unfolding abs_us_def u by (simp add: d algebra_simps)
  also have "\<dots> = abs_us dt + s * 1000000"
    by (simp add: abs_us_def us_of_day_def secs_def algebra_simps)
  finally show ?thesis using v by simp
qed

lemma weekday_wed: "weekday (mk_datetime 2024 1 3 hh mm ss us) = 2"
  by (simp add: weekday_def mk_datetime_def ymd2ord_def days_before_year_def days_before_month_def is_leap_def)

lemma weekday_sat: "weekday (mk_datetime 2024 1 6 hh mm ss us) = 5"
  by (simp add: weekday_def mk_datetime_def ymd2ord_def days_before_year_def days_before_month_def is_leap_def)

text \<open>
  Claim C4. For a \<open>datetime\<close> with well-formed time fields, the gate reports open
  exactly when the weekday is Monday to Friday (0 to 4) and the time of day lies between
  09:15:00.000000 and 15:30:00.000000, both included. Called without an argument, it
  judges the local time \<open>now_ist_dt\<close>, which is the clock's UTC time moved on by 5 hours
  30 minutes. On a Saturday (weekday 5, such as 2024-01-06) it reports closed whatever the
  time; on Wednesday 2024-01-03 it reports open at 09:15 and at 10:00 and closed at 16:00.
\<close>

theorem market_gate_window:
  "(valid_time dt \<longrightarrow>
      is_market_open_ist utc (Some dt) =
        Inr (weekday dt \<in> {0, 1, 2, 3, 4}
             \<and> 33300000000 \<le> us_of_day dt \<and> us_of_day dt \<le> 55800000000))
   \<and> is_market_open_ist utc None =
        (case now_ist_dt utc of Inl e \<Rightarrow> Inl e | Inr d \<Rightarrow> is_market_open_ist utc (Some d))
   \<and> (valid_time utc \<and> now_ist_dt utc = Inr loc \<longrightarrow>
        valid_time loc \<and> abs_us loc = abs_us utc + 19800000000)
   \<and> (weekday dt = 5 \<longrightarrow> is_market_open_ist utc (Some dt) = Inr False)
   \<and> weekday (mk_datetime 2024 1 6 hh mm ss us) = 5
   \<and> weekday (mk_datetime 2024 1 3 hh mm ss us) = 2
   \<and> is_market_open_ist utc (Some (mk_datetime 2024 1 3 9 15 0 0)) = Inr True
   \<and> is_market_open_ist utc (Some (mk_datetime 2024 1 3 10 0 0 0)) = Inr True
   \<and> is_market_open_ist utc (Some (mk_datetime 2024 1 3 16 0 0 0)) = Inr False"
proof -
  have 1: "is_market_open_ist utc (Some dt) =
        Inr (weekday dt \<in> {0, 1, 2, 3, 4}
             \<and> 33300000000 \<le> us_of_day dt \<and> us_of_day dt \<le> 55800000000)"
    if "valid_time dt"
    using market_open_window [OF that] by (simp add: is_market_open_ist_def)
  have 2: "is_market_open_ist utc None =
        (case now_ist_dt utc of Inl e \<Rightarrow> Inl e | Inr d \<Rightarrow> is_market_open_ist utc (Some d))"
    by (simp add: is_market_open_ist_def split: sum.splits)
  have 3: "valid_time loc \<and> abs_us loc = abs_us utc + 19800000000"
    if "valid_time utc" "now_ist_dt utc = Inr loc"
    using add_seconds_abs [OF that(1), of "5 * 3600 + 30 * 60" loc] that(2)
    by (simp add: now_ist_dt_def)
  have 4: "is_market_open_ist utc (Some dt) = Inr False" if "weekday dt = 5"
    using that by (simp add: is_market_open_ist_def market_open_def)
  have e: "is_market_open_ist utc (Some (mk_datetime 2024 1 3 9 15 0 0)) = Inr True"
    "is_market_open_ist utc (Some (mk_datetime 2024 1 3 10 0 0 0)) = Inr True"
    "is_market_open_ist utc (Some (mk_datetime 2024 1 3 16 0 0 0)) = Inr False"
    using weekday_wed [of 9 15 0 0] weekday_wed [of 10 0 0 0] weekday_wed [of 16 0 0 0]
    by (simp_all add: is_market_open_ist_def market_open_def)
       (simp_all add: mk_datetime_def time_of_def)
  from 1 2 3 4 e weekday_wed weekday_sat show ?thesis by (intro conjI impI) blast+
qed


theorem market_gate_window_witness:
  "is_market_open_ist (mk_datetime 2024 1 3 4 30 0 0) (Some (mk_datetime 2024 1 6 12 0 0 0)) = Inr False
   \<and> valid_time (mk_datetime 2024 1 3 10 0 0 0)
   \<and> abs_us (mk_datetime 2024 1 3 10 0 0 0) = abs_us (mk_datetime 2024 1 3 4 30 0 0) + 19800000000
   \<and> is_market_open_ist (mk_datetime 2024 1 3 4 30 0 0) None = Inr True"
proof -
  let ?utc = "mk_datetime 2024 1 3 4 30 0 0"
  let ?loc = "mk_datetime 2024 1 3 10 0 0 0"
  let ?sat = "mk_datetime 2024 1 6 12 0 0 0"
  have v: "valid_time ?utc" by (simp add: valid_time_def mk_datetime_def)
  have n: "now_ist_dt ?utc = Inr ?loc"
    by (simp add: now_ist_dt_def add_seconds_def mk_datetime_def ymd2ord_def
        days_before_year_def days_before_month_def is_leap_def)
  have s: "weekday ?sat = 5"
    by (simp add: weekday_def mk_datetime_def ymd2ord_def days_before_year_def
        days_before_month_def is_leap_def)
  note t = market_gate_window [of ?sat ?utc ?loc 0 0 0 0]
  from t s have a: "is_market_open_ist ?utc (Some ?sat) = Inr False" by blast
  from t v n have b: "valid_time ?loc \<and> abs_us ?loc = abs_us ?utc + 19800000000" by blast
  from t have "is_market_open_ist ?utc None =
      (case now_ist_dt ?utc of Inl e \<Rightarrow> Inl e | Inr d \<Rightarrow> is_market_open_ist ?utc (Some d))"
    by blast
  with n t have c: "is_market_open_ist ?utc None = Inr True" by simp
  from a b c show ?thesis by blast
qed

section \<open>Properties of the fetcher\<close>

lemma upto_1_3: "[1..3] = [1, 2, 3::int]"
  by code_simp

lemma attempt_fails_iff:
  "attempt_fails r \<longleftrightarrow>
     (case r of
        Raises e \<Rightarrow> True
      | Http status body \<Rightarrow>
          status \<noteq> 200 \<or> (case body of Inl e \<Rightarrow> True | Inr data \<Rightarrow> isl (extract_quotes data)))"
  by (auto simp: attempt_fails_def attempt_once_def split: response.splits sum.splits)

lemma fetch_event_kind: "is_fetch_event e \<Longrightarrow> e \<noteq> Render \<and> \<not> is_smtp_event e"
  by (cases e) simp_all

lemma attempt_once_events:
  "\<forall>e \<in> set (snd (attempt_once r)). is_fetch_event e"
  by (auto simp: attempt_once_def split: response.splits sum.splits)

lemma fetch_loop_events:
  "\<forall>e \<in> set (snd (fetch_loop net ks)). is_fetch_event e"
proof (induction ks)
  case Nil
  show ?case by simp
next
  case (Cons k ks)
  obtain res evs where a: "attempt_once (net k) = (res, evs)" by (cases "attempt_once (net k)")
  obtain result later where l: "fetch_loop net ks = (result, later)" by (cases "fetch_loop net ks")
  from attempt_once_events [of "net k"] a have e: "\<forall>e \<in> set evs. is_fetch_event e" by simp
  from Cons.IH l have f: "\<forall>e \<in> set later. is_fetch_event e" by simp
  show ?case
    using a l e f by (cases res) auto
qed

lemma fetch_loop_all_fail:
  assumes "\<forall>k \<in> set ks. attempt_fails (net k)"
  shows "fst (fetch_loop net ks) = JList []
     \<and> [k. Http_post k \<leftarrow> snd (fetch_loop net ks)] = ks
     \<and> [d. Sleep d \<leftarrow> snd (fetch_loop net ks)] = map (\<lambda>k. 3 / 2 * of_int k) ks"
  using assms
proof (induction ks)
  case Nil
  show ?case by simp
next
  case (Cons k ks)
  from Cons.prems have f: "fst (attempt_once (net k)) = None" by (simp add: attempt_fails_def)
  then obtain evs where a: "attempt_once (net k) = (None, evs)" by (cases "attempt_once (net k)") auto
  from attempt_once_events [of "net k"] a have e: "\<forall>e \<in> set evs. is_fetch_event e" by simp
  have nopost: "[k. Http_post k \<leftarrow> evs] = []" "[d. Sleep d \<leftarrow> evs] = []"
    using a by (auto simp: attempt_once_def split: response.splits sum.splits if_splits)
  obtain result later where l: "fetch_loop net ks = (result, later)" by (cases "fetch_loop net ks")
  from Cons have ih: "result = JList []" "[k. Http_post k \<leftarrow> later] = ks"
      "[d. Sleep d \<leftarrow> later] = map (\<lambda>k. 3 / 2 * of_int k) ks"
    using l by auto
  show ?case using a l ih nopost by simp
qed

text \<open>
  Claim C3. With three retries and every post answered by status 500 the fetcher returns
  the empty list after three posts. It sleeps after each failed attempt, the last one
  included: three times, for 1.5, 3 and 4.5 seconds, where the claim has two sleeps.
\<close>

theorem fetch_three_failures_sleeps_thrice:
  "yahoo_screener_most_active_india all_500 120 3 15 =
     (JList [],
      [Http_post 1, Log_warning ''Yahoo Screener HTTP %s: %s'', Sleep (3 / 2),
       Http_post 2, Log_warning ''Yahoo Screener HTTP %s: %s'', Sleep 3,
       Http_post 3, Log_warning ''Yahoo Screener HTTP %s: %s'', Sleep (9 / 2)])"
  by (simp add: yahoo_screener_most_active_india_def upto_1_3 attempt_once_def all_500_def)

section \<open>Properties of the mail dispatcher\<close>

text \<open>
  Claim C5. When one of the six settings of the module is empty (the port: zero),
  \<open>send_email\<close> raises \<open>RuntimeError\<close> and no step of the SMTP session has been taken.
  In particular this is so for the settings of any environment in which \<open>SMTP_PASS\<close> is
  missing or empty.
\<close>

theorem send_email_config_error:
  "((SMTP_HOST cfg = [] \<or> SMTP_PORT cfg = 0 \<or> SMTP_USER cfg = [] \<or> SMTP_PASS cfg = []
      \<or> FROM_EMAIL cfg = [] \<or> TO_EMAILS cfg = []) \<longrightarrow>
     send_email cfg smtp subject html_body = (Inl RuntimeError, []))
   \<and> ((env ''SMTP_PASS'' = None \<or> env ''SMTP_PASS'' = Some []) \<and> load_config rt env = Inr cfg' \<longrightarrow>
     send_email cfg' smtp subject html_body = (Inl RuntimeError, []))"
proof -
  have a: "send_email c smtp subject html_body = (Inl RuntimeError, [])"
    if "SMTP_HOST c = [] \<or> SMTP_PORT c = 0 \<or> SMTP_USER c = [] \<or> SMTP_PASS c = []
      \<or> FROM_EMAIL c = [] \<or> TO_EMAILS c = []" for c
  proof -
    from that have "\<not> (SMTP_HOST c \<noteq> [] \<and> SMTP_PORT c \<noteq> 0 \<and> SMTP_USER c \<noteq> []
             \<and> SMTP_PASS c \<noteq> [] \<and> FROM_EMAIL c \<noteq> [] \<and> TO_EMAILS c \<noteq> [])"
      by blast
    then show ?thesis unfolding send_email_def by (rule if_P)
  qed
  have b: "SMTP_PASS cfg' = []"
    if "env ''SMTP_PASS'' = None \<or> env ''SMTP_PASS'' = Some []" "load_config rt env = Inr cfg'"
  proof -
    from that(2) have "SMTP_PASS cfg' = getenv env ''SMTP_PASS'' []"
      by (auto simp: load_config_def split: option.splits)
    with that(1) show ?thesis by (auto simp: getenv_def)
  qed
  from a [of cfg] a [of cfg'] b show ?thesis by blast
qed


theorem send_email_config_error_witness:
  "send_email (ex_config\<lparr>SMTP_PASS := []\<rparr>) (\<lambda>step. None) ''subject'' ''<html></html>''
     = (Inl RuntimeError, [])
   \<and> load_config ex_runtime ex_env = Inr (ex_config\<lparr>SMTP_PASS := [], FROM_EMAIL := ''bot''\<rparr>)
   \<and> send_email (ex_config\<lparr>SMTP_PASS := [], FROM_EMAIL := ''bot''\<rparr>) (\<lambda>step. None)
        ''subject'' ''<html></html>''
     = (Inl RuntimeError, [])"
proof -
  have h: "SMTP_HOST (ex_config\<lparr>SMTP_PASS := []\<rparr>) = [] \<or> SMTP_PORT (ex_config\<lparr>SMTP_PASS := []\<rparr>) = 0
      \<or> SMTP_USER (ex_config\<lparr>SMTP_PASS := []\<rparr>) = [] \<or> SMTP_PASS (ex_config\<lparr>SMTP_PASS := []\<rparr>) = []
      \<or> FROM_EMAIL (ex_config\<lparr>SMTP_PASS := []\<rparr>) = [] \<or> TO_EMAILS (ex_config\<lparr>SMTP_PASS := []\<rparr>) = []"
    by simp
  have e: "ex_env ''SMTP_PASS'' = None \<or> ex_env ''SMTP_PASS'' = Some []"
    by (simp add: ex_env_def)
  have l: "load_config ex_runtime ex_env = Inr (ex_config\<lparr>SMTP_PASS := [], FROM_EMAIL := ''bot''\<rparr>)"
    by (simp add: load_config_def ex_runtime_def ex_env_def ex_config_def getenv_def)
  have a: "send_email (ex_config\<lparr>SMTP_PASS := []\<rparr>) (\<lambda>step. None) ''subject'' ''<html></html>''
     = (Inl RuntimeError, [])"
    by (rule send_email_config_error [THEN conjunct1, rule_format, OF h])
  have b: "send_email (ex_config\<lparr>SMTP_PASS := [], FROM_EMAIL := ''bot''\<rparr>) (\<lambda>step. None)
        ''subject'' ''<html></html>'' = (Inl RuntimeError, [])"
    by (rule send_email_config_error [THEN conjunct2, rule_format, OF conjI [OF e l]])
  show ?thesis by (intro conjI a l b)
qed

lemma send_email_configured:
  "send_email ex_config (\<lambda>step. None) ''subject'' ''<html></html>'' =
     (Inr (), [Smtp_connect ''smtp.example.org'' 587, Smtp_starttls, Smtp_login ''bot'' ''secret'',
        Smtp_sendmail ''bot@example.org'' [''desk@example.org'']
          \<lparr>msg_subject = ''subject'', msg_from = ''bot@example.org'',
           msg_to = ''desk@example.org'', msg_html = ''<html></html>''\<rparr>,
        Smtp_quit, Log_info ''Email sent to: %s''])"
  by (simp add: send_email_def ex_config_def)

section \<open>Properties of the orchestrator\<close>

text \<open>
  Claim C8. When market hours are enforced and the gate reports closed at the local time
  computed from the clock, \<open>main\<close> returns normally and its only effect is one call of
  \<open>logging.info\<close>: no post, no rendering, no SMTP step.
\<close>

theorem main_skips_when_closed:
  assumes "ENFORCE_MARKET_HOURS cfg"
    and "now_ist_dt (clock w) = Inr ist_dt"
    and "is_market_open_ist (clock w) (Some ist_dt) = Inr False"
  shows "main rt cfg w =
     (Inr (), [Log_info ''Outside Indian market hours. Skipping send. Now IST: %s''])"
  using assms by (simp add: main_def)

theorem main_skips_when_closed_witness:
  "main ex_runtime ex_config (ex_world (mk_datetime 2024 1 6 6 0 0 0) all_500) =
     (Inr (), [Log_info ''Outside Indian market hours. Skipping send. Now IST: %s''])"
proof -
  let ?w = "ex_world (mk_datetime 2024 1 6 6 0 0 0) all_500"
  have e: "ENFORCE_MARKET_HOURS ex_config" by (simp add: ex_config_def)
  have n: "now_ist_dt (clock ?w) = Inr (mk_datetime 2024 1 6 11 30 0 0)"
    by (simp add: ex_world_def now_ist_dt_def add_seconds_def mk_datetime_def ymd2ord_def
        days_before_year_def days_before_month_def is_leap_def)
  have c: "is_market_open_ist (clock ?w) (Some (mk_datetime 2024 1 6 11 30 0 0)) = Inr False"
    by (simp add: is_market_open_ist_def market_open_def weekday_def mk_datetime_def ymd2ord_def
        days_before_year_def days_before_month_def is_leap_def)
  show ?thesis by (rule main_skips_when_closed [OF e n c])
qed

text \<open>
  Claim C6. When every attempt fails the fetcher returns the empty list; it has no way to
  raise, since its result is a value and every exception of an attempt is caught. When
  the three attempts of \<open>main\<close> fail (and the gate lets the run through), \<open>main\<close>
  returns normally; its effects are those of the fetcher followed by one call of
  \<open>logging.warning\<close>, with no rendering and no SMTP step among them.
\<close>

theorem fetch_failures_report_nothing:
  "((\<forall>k \<in> set [1..retries]. attempt_fails (net k)) \<longrightarrow>
      fst (yahoo_screener_most_active_india net sz retries timeout) = JList [])
   \<and> ((\<forall>k \<in> set [1..3]. attempt_fails (network w k))
        \<and> now_ist_dt (clock w) = Inr ist_dt
        \<and> \<not> (ENFORCE_MARKET_HOURS cfg \<and> is_market_open_ist (clock w) (Some ist_dt) = Inr False) \<longrightarrow>
        fst (main rt cfg w) = Inr ()
        \<and> snd (main rt cfg w) =
            snd (yahoo_screener_most_active_india (network w) (max (TOP_N cfg * 6) 60) 3 15)
            @ [Log_warning ''No quotes fetched; aborting email.'']
        \<and> (\<forall>e \<in> set (snd (main rt cfg w)). e \<noteq> Render \<and> \<not> is_smtp_event e))"
proof -
  have a: "fst (yahoo_screener_most_active_india net sz retries timeout) = JList []"
    if "\<forall>k \<in> set [1..retries]. attempt_fails (net k)" for net sz retries timeout
    using fetch_loop_all_fail [OF that] by (simp add: yahoo_screener_most_active_india_def)
  have b: "fst (main rt cfg w) = Inr ()
        \<and> snd (main rt cfg w) =
            snd (yahoo_screener_most_active_india (network w) (max (TOP_N cfg * 6) 60) 3 15)
            @ [Log_warning ''No quotes fetched; aborting email.'']
        \<and> (\<forall>e \<in> set (snd (main rt cfg w)). e \<noteq> Render \<and> \<not> is_smtp_event e)"
    if f: "\<forall>k \<in> set [1..3]. attempt_fails (network w k)"
      and n: "now_ist_dt (clock w) = Inr ist_dt"
      and g: "\<not> (ENFORCE_MARKET_HOURS cfg \<and> is_market_open_ist (clock w) (Some ist_dt) = Inr False)"
  proof -
    obtain quotes fetched where y:
      "yahoo_screener_most_active_india (network w) (max (TOP_N cfg * 6) 60) 3 15 = (quotes, fetched)"
      by (cases "yahoo_screener_most_active_india (network w) (max (TOP_N cfg * 6) 60) 3 15")
    from a [OF f, of "max (TOP_N cfg * 6) 60" 15] y have q: "quotes = JList []" by simp
    from n g y q have m: "main rt cfg w =
        (Inr (), fetched @ [Log_warning ''No quotes fetched; aborting email.''])"
      by (simp add: main_def)
    from fetch_loop_events [of "network w" "[1..3]"] y
    have "\<forall>e \<in> set fetched. is_fetch_event e"
      by (simp add: yahoo_screener_most_active_india_def)
    then have "\<forall>e \<in> set fetched. e \<noteq> Render \<and> \<not> is_smtp_event e"
      by (auto dest: fetch_event_kind)
    with m y show ?thesis by simp
  qed
  from a b show ?thesis by blast
qed


theorem fetch_failures_report_nothing_witness:
  "fst (yahoo_screener_most_active_india all_500 120 3 15) = JList []
   \<and> fst (main ex_runtime ex_config (ex_world (mk_datetime 2024 1 3 4 30 0 0) all_500)) = Inr ()
   \<and> snd (main ex_runtime ex_config (ex_world (mk_datetime 2024 1 3 4 30 0 0) all_500)) =
       snd (yahoo_screener_most_active_india
              (network (ex_world (mk_datetime 2024 1 3 4 30 0 0) all_500))
              (max (TOP_N ex_config * 6) 60) 3 15)
       @ [Log_warning ''No quotes fetched; aborting email.'']"
proof -
  let ?w = "ex_world (mk_datetime 2024 1 3 4 30 0 0) all_500"
  have f: "\<forall>k \<in> set [1..3]. attempt_fails (all_500 k)"
    by (simp add: attempt_fails_def attempt_once_def all_500_def)
  then have f': "\<forall>k \<in> set [1..3]. attempt_fails (network ?w k)"
    by (simp add: ex_world_def)
  have n: "now_ist_dt (clock ?w) = Inr (mk_datetime 2024 1 3 10 0 0 0)"
    by (simp add: ex_world_def now_ist_dt_def add_seconds_def mk_datetime_def ymd2ord_def
        days_before_year_def days_before_month_def is_leap_def)
  have "is_market_open_ist (clock ?w) (Some (mk_datetime 2024 1 3 10 0 0 0)) = Inr True"
    by (simp add: is_market_open_ist_def market_open_def weekday_def mk_datetime_def ymd2ord_def
        days_before_year_def days_before_month_def is_leap_def time_of_def)
  then have g: "\<not> (ENFORCE_MARKET_HOURS ex_config
      \<and> is_market_open_ist (clock ?w) (Some (mk_datetime 2024 1 3 10 0 0 0)) = Inr False)"
    by simp
  note t = fetch_failures_report_nothing [where retries = 3 and net = all_500 and sz = 120
      and timeout = 15 and w = ?w and ist_dt = "mk_datetime 2024 1 3 10 0 0 0"
      and cfg = ex_config and rt = ex_runtime]
  from t f have a: "fst (yahoo_screener_most_active_india all_500 120 3 15) = JList []"
    by blast
  from t f' n g have b: "fst (main ex_runtime ex_config ?w) = Inr ()
     \<and> snd (main ex_runtime ex_config ?w) =
       snd (yahoo_screener_most_active_india (network ?w) (max (TOP_N ex_config * 6) 60) 3 15)
       @ [Log_warning ''No quotes fetched; aborting email.'']"
    by blast
  from a b show ?thesis by blast
qed

section \<open>Properties of the renderer\<close>















section \<open>Further properties\<close>

text \<open>
  The scenario of the specification: from the quotes TCS.NS (500), INFY.NS (900) and
  X.BO (100) and a count of 2, the NSE list is INFY.NS, TCS.NS and the BSE list is X.BO.
\<close>

theorem scenario_ranked_lists:
  "select_top_by_exchange scenario_quotes ''.NS'' 2 =
     Inr [ex_row ''INFY.NS'' 900, ex_row ''TCS.NS'' 500]
   \<and> select_top_by_exchange scenario_quotes ''.BO'' 2 = Inr [ex_row ''X.BO'' 100]"
  by code_simp

lemma upto_first: "1 \<le> n \<Longrightarrow> [1..n] = 1 # [2..n]"
  by (simp add: upto_rec1)

text \<open>
  A first post answered with status 200 and a body of the expected shape ends the fetch:
  the quotes of the body are returned (the empty list if they are false in Python's
  sense), after one post and no sleep.
\<close>

theorem fetch_returns_first_success:
  assumes "1 \<le> retries"
    and "net 1 = Http 200 (Inr (screener_body qs))"
  shows "yahoo_screener_most_active_india net sz retries timeout =
     (py_or qs (JList []), [Http_post 1])"
  using assms
  by (simp add: yahoo_screener_most_active_india_def upto_first attempt_once_def
      extract_quotes_def screener_body_def dict_get_default_def)

theorem fetch_returns_first_success_witness:
  "yahoo_screener_most_active_india (\<lambda>k. Http 200 (Inr (screener_body (JList scenario_quotes))))
     120 3 15 = (py_or (JList scenario_quotes) (JList []), [Http_post 1])"
proof -
  have r: "(1::int) \<le> 3" by simp
  have n: "(\<lambda>k::int. Http 200 (Inr (screener_body (JList scenario_quotes)))) 1
      = Http 200 (Inr (screener_body (JList scenario_quotes)))" by simp
  show ?thesis by (rule fetch_returns_first_success [OF r n])
qed

text \<open>
  A body in which \<open>finance\<close>, \<open>result\<close> or \<open>quotes\<close> is missing, or \<open>quotes\<close> is
  \<open>None\<close>, gives the empty list. A body in which \<open>finance\<close> is \<open>None\<close> or \<open>result\<close> is an
  empty list makes the attempt fail, so that it is retried.
\<close>

theorem missing_path_is_empty:
  "extract_quotes (JDict []) = Inr (JList [])
   \<and> extract_quotes (JDict [(''finance'', JDict [])]) = Inr (JList [])
   \<and> extract_quotes (JDict [(''finance'', JDict [(''result'', JList [JDict []])])]) = Inr (JList [])
   \<and> extract_quotes (screener_body JNull) = Inr (JList [])
   \<and> attempt_fails (Http 200 (Inr (JDict [(''finance'', JNull)])))
   \<and> attempt_fails (Http 200 (Inr (JDict [(''finance'', JDict [(''result'', JList [])])])))"
  by (simp add: extract_quotes_def dict_get_default_def py_or_def screener_body_def
      attempt_fails_def attempt_once_def)

lemma collect_rows_total:
  "\<forall>q \<in> set quotes. well_formed_quote q \<Longrightarrow> \<exists>rows. collect_rows suf quotes acc = Inr rows"
proof (induction quotes arbitrary: acc)
  case Nil
  show ?case by simp
next
  case (Cons q quotes)
  from Cons.prems have w: "well_formed_quote q" by simp
  then obtain d where d: "q = JDict d" by (cases q) (simp_all add: well_formed_quote_def)
  from w d have v: "\<not> isl (quote_volume d)" by (simp add: well_formed_quote_def)
  from w d have "\<exists>opt. quote_row suf q = Inr opt"
  proof (cases "dict_get d ''symbol''")
    case (JStr s)
    with v d show ?thesis
      by (cases "quote_volume d") (auto simp: py_or_def)
  qed (use v in \<open>auto simp: well_formed_quote_def py_or_def endswith_def split: sum.splits\<close>)
  then obtain opt where o: "quote_row suf q = Inr opt" by blast
  from Cons.prems have rest: "\<forall>q \<in> set quotes. well_formed_quote q" by simp
  show ?case
  proof (cases opt)
    case None
    with o Cons.IH [OF rest, of acc] show ?thesis by simp
  next
    case (Some r)
    with o Cons.IH [OF rest, of "acc @ [r]"] show ?thesis by simp
  qed
qed

text \<open>
  On well-formed quotes \<open>select_top_by_exchange\<close> returns a list, for every suffix and
  every count.
\<close>

theorem select_top_total:
  assumes "\<forall>q \<in> set quotes. well_formed_quote q"
  shows "\<exists>rows. select_top_by_exchange quotes suf top_n = Inr rows"
  using collect_rows_total [OF assms, of suf "[]"]
  by (auto simp: select_top_by_exchange_def)


theorem select_top_total_witness:
  "\<exists>rows. select_top_by_exchange scenario_quotes ''.NS'' 2 = Inr rows"
proof -
  have w: "\<forall>q \<in> set scenario_quotes. well_formed_quote q"
    by (simp add: scenario_quotes_def well_formed_quote_def dict_get_def dict_get_default_def
        quote_volume_def quote_vol_def py_or_def)
  show ?thesis by (rule select_top_total [OF w])
qed

text \<open>
  With a complete configuration \<open>send_email\<close> opens one SMTP session. When every step
  succeeds it connects, upgrades, logs in, sends one message from the sender to all
  recipients with the subject and the HTML body, and quits. When the connection fails
  the exception is raised to the caller and nothing is tried again.
\<close>

theorem send_email_one_session:
  assumes "complete cfg"
  shows "((\<forall>step. smtp step = None) \<longrightarrow>
           send_email cfg smtp subject html_body =
             (Inr (),
              [Smtp_connect (SMTP_HOST cfg) (SMTP_PORT cfg), Smtp_starttls,
               Smtp_login (SMTP_USER cfg) (SMTP_PASS cfg),
               Smtp_sendmail (FROM_EMAIL cfg) (TO_EMAILS cfg)
                 \<lparr>msg_subject = subject, msg_from = FROM_EMAIL cfg,
                  msg_to = join '', '' (TO_EMAILS cfg), msg_html = html_body\<rparr>,
               Smtp_quit, Log_info ''Email sent to: %s'']))
    \<and> (smtp Connect = Some e \<longrightarrow>
           send_email cfg smtp subject html_body =
             (Inl e, [Smtp_connect (SMTP_HOST cfg) (SMTP_PORT cfg)]))
    \<and> length (filter (\<lambda>ev. ev = Smtp_connect (SMTP_HOST cfg) (SMTP_PORT cfg))
          (snd (send_email cfg smtp subject html_body))) = 1"
  using assms
  by (auto simp: send_email_def complete_def Let_def split: option.splits)

theorem send_email_one_session_witness:
  "send_email ex_config (\<lambda>step. None) ''subject'' ''<html></html>'' =
     (Inr (),
      [Smtp_connect (SMTP_HOST ex_config) (SMTP_PORT ex_config), Smtp_starttls,
       Smtp_login (SMTP_USER ex_config) (SMTP_PASS ex_config),
       Smtp_sendmail (FROM_EMAIL ex_config) (TO_EMAILS ex_config)
         \<lparr>msg_subject = ''subject'', msg_from = FROM_EMAIL ex_config,
          msg_to = join '', '' (TO_EMAILS ex_config), msg_html = ''<html></html>''\<rparr>,
       Smtp_quit, Log_info ''Email sent to: %s''])"
proof -
  have c: "complete ex_config" by (simp add: complete_def ex_config_def)
  have a: "\<forall>step. (\<lambda>step::smtp_step. None :: error option) step = None" by simp
  show ?thesis
    by (rule send_email_one_session [OF c, THEN conjunct1, THEN mp, OF a])
qed

text \<open>
  When the run passes the gate, the fetcher returns quotes, and ranking and rendering
  succeed, \<open>main\<close> renders once and calls \<open>send_email\<close> with the subject of line 157 and
  the rendered document; the result of \<open>send_email\<close>, an exception included, is the
  result of \<open>main\<close>.
\<close>

theorem main_reports_and_sends:
  assumes "now_ist_dt (clock w) = Inr ist_dt"
    and "\<not> (ENFORCE_MARKET_HOURS cfg \<and> is_market_open_ist (clock w) (Some ist_dt) = Inr False)"
    and "yahoo_screener_most_active_india (network w) (max (TOP_N cfg * 6) 60) 3 15
           = (quotes, fetched)"
    and "truthy quotes"
    and "select_top_of quotes ''.NS'' (TOP_N cfg) = Inr nse"
    and "select_top_of quotes ''.BO'' (TOP_N cfg) = Inr bse"
    and "build_email_html rt (py_strftime rt ist_dt) nse bse = Inr html"
  shows "main rt cfg w =
     (fst (send_email cfg (relay w) (mail_subject cfg (py_strftime rt ist_dt)) html),
      fetched @ Render # snd (send_email cfg (relay w) (mail_subject cfg (py_strftime rt ist_dt)) html))"
  using assms
  by (auto simp: main_def report_def Let_def case_prod_beta)

theorem main_reports_and_sends_witness:
  "main ex_runtime ex_config scenario_world =
     (Inr (),
      [Http_post 1, Render,
       Smtp_connect ''smtp.example.org'' 587, Smtp_starttls, Smtp_login ''bot'' ''secret'',
       Smtp_sendmail ''bot@example.org'' [''desk@example.org'']
         \<lparr>msg_subject = mail_subject ex_config ''2024-01-03 10:00'',
          msg_from = ''bot@example.org'', msg_to = ''desk@example.org'',
          msg_html = scenario_html\<rparr>,
       Smtp_quit, Log_info ''Email sent to: %s''])"
proof -
  let ?loc = "mk_datetime 2024 1 3 10 0 0 0"
  have n: "now_ist_dt (clock scenario_world) = Inr ?loc"
    by (simp add: scenario_world_def ex_world_def now_ist_dt_def add_seconds_def mk_datetime_def
        ymd2ord_def days_before_year_def days_before_month_def is_leap_def)
  have "is_market_open_ist (clock scenario_world) (Some ?loc) = Inr True"
    by (simp add: is_market_open_ist_def market_open_def weekday_def mk_datetime_def ymd2ord_def
        days_before_year_def days_before_month_def is_leap_def time_of_def)
  then have g: "\<not> (ENFORCE_MARKET_HOURS ex_config
      \<and> is_market_open_ist (clock scenario_world) (Some ?loc) = Inr False)"
    by simp
  have f: "yahoo_screener_most_active_india (network scenario_world)
      (max (TOP_N ex_config * 6) 60) 3 15 = (JList scenario_quotes, [Http_post 1])"
    by (simp add: scenario_world_def ex_world_def yahoo_screener_most_active_india_def upto_first
        attempt_once_def extract_quotes_def screener_body_def dict_get_default_def py_or_def
        scenario_quotes_def)
  have t: "truthy (JList scenario_quotes)" by (simp add: scenario_quotes_def)
  have nse: "select_top_of (JList scenario_quotes) ''.NS'' (TOP_N ex_config)
      = Inr [ex_row ''INFY.NS'' 900, ex_row ''TCS.NS'' 500]"
    by code_simp
  have bse: "select_top_of (JList scenario_quotes) ''.BO'' (TOP_N ex_config)
      = Inr [ex_row ''X.BO'' 100]"
    by code_simp
  have s: "py_strftime ex_runtime ?loc = ''2024-01-03 10:00''"
    by (simp add: ex_runtime_def)
  have h: "build_email_html ex_runtime (py_strftime ex_runtime ?loc)
      [ex_row ''INFY.NS'' 900, ex_row ''TCS.NS'' 500] [ex_row ''X.BO'' 100] = Inr scenario_html"
    unfolding s
    by (simp add: build_email_html_def scenario_html_def tbl_def row_html_def ex_row_def
        ex_runtime_def cell_2f_def str_int_def str_nat.simps digit_def format_value_def
        format_thousands_def group_thousands.simps numeral_2_eq_2)
  have m: "send_email ex_config (relay scenario_world)
      (mail_subject ex_config (py_strftime ex_runtime ?loc)) scenario_html =
     (Inr (),
      [Smtp_connect ''smtp.example.org'' 587, Smtp_starttls, Smtp_login ''bot'' ''secret'',
       Smtp_sendmail ''bot@example.org'' [''desk@example.org'']
         \<lparr>msg_subject = mail_subject ex_config ''2024-01-03 10:00'',
          msg_from = ''bot@example.org'', msg_to = ''desk@example.org'',
          msg_html = scenario_html\<rparr>,
       Smtp_quit, Log_info ''Email sent to: %s''])"
    unfolding s by (simp add: send_email_def ex_config_def scenario_world_def ex_world_def)
  from main_reports_and_sends [OF n g f t nse bse h] show ?thesis
    unfolding m by simp
qed

end
